theory Spec2Isabelle
  imports Main
begin

section \<open>JavaScript values\<close>

text \<open>
  The values that flow through \<^verbatim>\<open>index.js\<close>: request bodies parsed by
  \<^verbatim>\<open>express.json()\<close>, query parameters, and the documents handed to the
  MongoDB driver. \<open>JUndef\<close> is JavaScript's \<^verbatim>\<open>undefined\<close>, \<open>JDate\<close> a
  \<^verbatim>\<open>Date\<close> (milliseconds), \<open>JOid\<close> an \<^verbatim>\<open>ObjectId\<close> (its hex string).
  Numbers are integers here: the code only tests them for truthiness and multiplies
  page counters.
\<close>

datatype jv =
    JUndef
  | JNull
  | JBool bool
  | JNum int
  | JStr string
  | JDate int
  | JOid string
  | JArr "jv list"
  | JObj "(string \<times> jv) list"

type_synonym doc = "(string \<times> jv) list"

text \<open>JavaScript truthiness, as used by \<^verbatim>\<open>if (x)\<close> and \<^verbatim>\<open>!x\<close>.\<close>

fun truthy :: "jv \<Rightarrow> bool" where
  "truthy JUndef = False"
| "truthy JNull = False"
| "truthy (JBool b) = b"
| "truthy (JNum n) = (n \<noteq> 0)"
| "truthy (JStr s) = (s \<noteq> [])"
| "truthy (JDate t) = True"
| "truthy (JOid h) = True"
| "truthy (JArr xs) = True"
| "truthy (JObj fs) = True"

text \<open>Reading a property of an object: \<^verbatim>\<open>undefined\<close> when the key is absent.\<close>

definition get_field :: "doc \<Rightarrow> string \<Rightarrow> jv" where
  "get_field fs k = (case map_of fs k of None \<Rightarrow> JUndef | Some v \<Rightarrow> v)"

text \<open>Writing a property: an existing key keeps its position, a new key is appended.\<close>

fun set_field :: "string \<Rightarrow> jv \<Rightarrow> doc \<Rightarrow> doc" where
  "set_field k v [] = [(k, v)]"
| "set_field k v ((k', v') # fs) =
     (if k' = k then (k, v) # fs else (k', v') # set_field k v fs)"

datatype error = TypeError string | BSONError string | MongoError string

fun message :: "error \<Rightarrow> string" where
  "message (TypeError m) = m"
| "message (BSONError m) = m"
| "message (MongoError m) = m"

text \<open>
  \<^verbatim>\<open>x.k\<close> and destructuring \<^verbatim>\<open>const { k } = x\<close>: a TypeError on
  \<^verbatim>\<open>undefined\<close> and \<^verbatim>\<open>null\<close>. None of the keys the routes read is a
  built-in property of arrays or strings, so those give \<^verbatim>\<open>undefined\<close>.
\<close>

fun member :: "jv \<Rightarrow> string \<Rightarrow> error + jv" where
  "member JUndef k = Inl (TypeError ''Cannot read properties of undefined'')"
| "member JNull k = Inl (TypeError ''Cannot read properties of null'')"
| "member (JObj fs) k = Inr (get_field fs k)"
| "member (JBool b) k = Inr JUndef"
| "member (JNum n) k = Inr JUndef"
| "member (JStr s) k = Inr JUndef"
| "member (JDate t) k = Inr JUndef"
| "member (JOid h) k = Inr JUndef"
| "member (JArr xs) k = Inr JUndef"

text \<open>Optional chaining \<^verbatim>\<open>x?.k\<close>.\<close>

fun opt_member :: "jv \<Rightarrow> string \<Rightarrow> jv" where
  "opt_member (JObj fs) k = get_field fs k"
| "opt_member v k = JUndef"

text \<open>
  Strict equality \<^verbatim>\<open>===\<close> between a value read from the store and a value of the
  request: primitives compare by value, objects by reference, and the two never share
  a reference.
\<close>

fun strict_eq :: "jv \<Rightarrow> jv \<Rightarrow> bool" where
  "strict_eq (JDate t) w = False"
| "strict_eq (JOid h) w = False"
| "strict_eq (JArr xs) w = False"
| "strict_eq (JObj fs) w = False"
| "strict_eq JUndef w = (w = JUndef)"
| "strict_eq JNull w = (w = JNull)"
| "strict_eq (JBool b) w = (w = JBool b)"
| "strict_eq (JNum n) w = (w = JNum n)"
| "strict_eq (JStr s) w = (w = JStr s)"

text \<open>Decimal rendering of an array index, for the keys of a spread array.\<close>

function dec :: "nat \<Rightarrow> string" where
  "dec n = (if n < 10 then [''0123456789'' ! n]
            else dec (n div 10) @ [''0123456789'' ! (n mod 10)])"
  by pat_completeness auto
termination
  by (relation "measure id") auto

declare dec.simps [simp del]

fun indexed :: "nat \<Rightarrow> jv list \<Rightarrow> doc" where
  "indexed i [] = []"
| "indexed i (x # xs) = (dec i, x) # indexed (Suc i) xs"

text \<open>
  Own enumerable properties, as copied by object spread \<^verbatim>\<open>{ ...x }\<close> and as
  serialised by the driver for a top-level value.
\<close>

fun spread :: "jv \<Rightarrow> doc" where
  "spread (JObj fs) = fs"
| "spread (JArr xs) = indexed 0 xs"
| "spread (JStr s) = indexed 0 (map (\<lambda>c. JStr [c]) s)"
| "spread JUndef = []"
| "spread JNull = []"
| "spread (JBool b) = []"
| "spread (JNum n) = []"
| "spread (JDate t) = []"
| "spread (JOid h) = []"

text \<open>\<^verbatim>\<open>s.split(" ")\<close> and \<^verbatim>\<open>s.startsWith(p)\<close>.\<close>

fun split_on :: "char \<Rightarrow> string \<Rightarrow> string list" where
  "split_on c [] = [[]]"
| "split_on c (x # xs) =
     (if x = c then [] # split_on c xs
      else (case split_on c xs of
              [] \<Rightarrow> [[x]]
            | w # ws \<Rightarrow> (x # w) # ws))"

definition startsWith :: "string \<Rightarrow> string \<Rightarrow> bool" where
  "startsWith s p = (take (length p) s = p)"

definition index_opt :: "'a list \<Rightarrow> nat \<Rightarrow> 'a option" where
  "index_opt xs i = (if i < length xs then Some (xs ! i) else None)"

section \<open>The document store\<close>

datatype coll = Assignments | Reviews | SubmittedAssignments

record store =
  assignments :: "doc list"
  reviews :: "doc list"
  submittedAssignments :: "doc list"

fun get_coll :: "coll \<Rightarrow> store \<Rightarrow> doc list" where
  "get_coll Assignments s = assignments s"
| "get_coll Reviews s = reviews s"
| "get_coll SubmittedAssignments s = submittedAssignments s"

fun put_coll :: "coll \<Rightarrow> doc list \<Rightarrow> store \<Rightarrow> store" where
  "put_coll Assignments ds s = s\<lparr>assignments := ds\<rparr>"
| "put_coll Reviews ds s = s\<lparr>reviews := ds\<rparr>"
| "put_coll SubmittedAssignments ds s = s\<lparr>submittedAssignments := ds\<rparr>"

text \<open>
  The calls the routes make on a collection, with the arguments they forward.
  \<open>FindCursor\<close> is \<^verbatim>\<open>find(f).sort(s).skip(k).limit(n).toArray()\<close>;
  \<open>UpdateOne c f fs\<close> is \<^verbatim>\<open>updateOne(f, { $set: fs })\<close>.
\<close>

datatype db_call =
    InsertOne coll jv
  | Find coll doc
  | FindCursor coll doc doc int int
  | FindOne coll doc
  | Aggregate coll "jv list"
  | UpdateOne coll doc doc
  | DeleteOne coll doc

text \<open>
  Everything outside the repository that a route depends on: the identity token
  verifier, the \<^verbatim>\<open>ObjectId\<close> constructor (\<open>Inl\<close> its error message), the id the
  driver generates for a document without one, the clock, \<^verbatim>\<open>parseInt\<close> (\<open>None\<close>
  is NaN), whether a given driver call rejects (and with which message), the store's
  query operators, and its sorting, paging and aggregation.
\<close>

record env =
  verifyIdToken :: "string option \<Rightarrow> bool"
  objectId :: "string \<Rightarrow> string + string"
  createPk :: string
  now :: int
  parseInt :: "jv \<Rightarrow> int option"
  db_throw :: "db_call \<Rightarrow> string option"
  mongo_op :: "jv \<Rightarrow> jv \<Rightarrow> bool"
  cursor :: "db_call \<Rightarrow> doc list \<Rightarrow> doc list"

text \<open>
  A filter document is a conjunction of conditions on fields. A condition whose first
  key starts with \<^verbatim>\<open>$\<close> is an operator expression, decided by the store; any other
  condition is equality with the field's value.
\<close>

fun is_operator :: "jv \<Rightarrow> bool" where
  "is_operator (JObj ((k, v) # fs)) = (take 1 k = ''$'')"
| "is_operator v = False"

definition matches :: "env \<Rightarrow> doc \<Rightarrow> doc \<Rightarrow> bool" where
  "matches e flt d =
     list_all (\<lambda>(k, c). if is_operator c then mongo_op e c (get_field d k) else get_field d k = c) flt"

fun update_first :: "('a \<Rightarrow> bool) \<Rightarrow> ('a \<Rightarrow> 'a) \<Rightarrow> 'a list \<Rightarrow> 'a list" where
  "update_first P f [] = []"
| "update_first P f (x # xs) = (if P x then f x # xs else x # update_first P f xs)"

fun remove_first :: "('a \<Rightarrow> bool) \<Rightarrow> 'a list \<Rightarrow> 'a list" where
  "remove_first P [] = []"
| "remove_first P (x # xs) = (if P x then xs else x # remove_first P xs)"

text \<open>
  The driver serialises \<^verbatim>\<open>undefined\<close> as \<^verbatim>\<open>null\<close> (its default,
  \<^verbatim>\<open>ignoreUndefined: false\<close>).
\<close>

definition nullify :: "jv \<Rightarrow> jv" where
  "nullify v = (if v = JUndef then JNull else v)"

definition bson :: "doc \<Rightarrow> doc" where
  "bson d = map (\<lambda>(k, v). (k, nullify v)) d"

definition apply_set :: "doc \<Rightarrow> doc \<Rightarrow> doc" where
  "apply_set fs d = foldl (\<lambda>d' (k, v). set_field k v d') d (bson fs)"

text \<open>
  A route handler runs on the store and the log of the driver calls issued so far.
  Every driver call appends itself to the log, whether it returns or throws.
\<close>

type_synonym hstate = "store \<times> db_call list"

definition logged :: "db_call \<Rightarrow> hstate \<Rightarrow> hstate" where
  "logged c st = (fst st, snd st @ [c])"

definition insertOne :: "env \<Rightarrow> coll \<Rightarrow> jv \<Rightarrow> hstate \<Rightarrow> (error + jv) \<times> hstate" where
  "insertOne e c v st =
     (let st' = logged (InsertOne c v) st; s = fst st in
      if v = JUndef \<or> v = JNull then
        (Inl (TypeError ''Cannot read properties of undefined''), st')
      else (case db_throw e (InsertOne c v) of
        Some m \<Rightarrow> (Inl (MongoError m), st')
      | None \<Rightarrow>
          let d = spread v;
              d' = bson (if get_field d ''_id'' = JUndef \<or> get_field d ''_id'' = JNull
                         then set_field ''_id'' (JOid (createPk e)) d else d)
          in if get_field d' ''_id'' \<in> set (map (\<lambda>x. get_field x ''_id'') (get_coll c s))
             then (Inl (MongoError ''E11000 duplicate key error''), st')
             else (Inr (get_field d' ''_id''),
                   (put_coll c (get_coll c s @ [d']) s, snd st'))))"

definition find_all :: "env \<Rightarrow> coll \<Rightarrow> doc \<Rightarrow> hstate \<Rightarrow> (error + doc list) \<times> hstate" where
  "find_all e c flt st =
     (let st' = logged (Find c flt) st in
      case db_throw e (Find c flt) of
        Some m \<Rightarrow> (Inl (MongoError m), st')
      | None \<Rightarrow> (Inr (filter (matches e flt) (get_coll c (fst st))), st'))"

definition find_cursor ::
  "env \<Rightarrow> coll \<Rightarrow> doc \<Rightarrow> doc \<Rightarrow> int \<Rightarrow> int \<Rightarrow> hstate \<Rightarrow> (error + doc list) \<times> hstate" where
  "find_cursor e c flt srt sk lim st =
     (let call = FindCursor c flt srt sk lim; st' = logged call st in
      case db_throw e call of
        Some m \<Rightarrow> (Inl (MongoError m), st')
      | None \<Rightarrow> (Inr (cursor e call (filter (matches e flt) (get_coll c (fst st)))), st'))"

definition aggregate :: "env \<Rightarrow> coll \<Rightarrow> jv list \<Rightarrow> hstate \<Rightarrow> (error + doc list) \<times> hstate" where
  "aggregate e c pipeline st =
     (let call = Aggregate c pipeline; st' = logged call st in
      case db_throw e call of
        Some m \<Rightarrow> (Inl (MongoError m), st')
      | None \<Rightarrow> (Inr (cursor e call (get_coll c (fst st))), st'))"

definition findOne :: "env \<Rightarrow> coll \<Rightarrow> doc \<Rightarrow> hstate \<Rightarrow> (error + doc option) \<times> hstate" where
  "findOne e c flt st =
     (let st' = logged (FindOne c flt) st in
      case db_throw e (FindOne c flt) of
        Some m \<Rightarrow> (Inl (MongoError m), st')
      | None \<Rightarrow> (Inr (List.find (matches e flt) (get_coll c (fst st))), st'))"

text \<open>\<open>updateOne\<close> returns \<^verbatim>\<open>modifiedCount\<close>, \<open>deleteOne\<close> \<^verbatim>\<open>deletedCount\<close>.\<close>

definition updateOne :: "env \<Rightarrow> coll \<Rightarrow> doc \<Rightarrow> doc \<Rightarrow> hstate \<Rightarrow> (error + nat) \<times> hstate" where
  "updateOne e c flt fs st =
     (let st' = logged (UpdateOne c flt fs) st; s = fst st in
      case db_throw e (UpdateOne c flt fs) of
        Some m \<Rightarrow> (Inl (MongoError m), st')
      | None \<Rightarrow>
          (case List.find (matches e flt) (get_coll c s) of
             None \<Rightarrow> (Inr 0, st')
           | Some d \<Rightarrow>
               if apply_set fs d = d then (Inr 0, st')
               else (Inr 1,
                     (put_coll c (update_first (matches e flt) (apply_set fs) (get_coll c s)) s,
                      snd st'))))"

definition deleteOne :: "env \<Rightarrow> coll \<Rightarrow> doc \<Rightarrow> hstate \<Rightarrow> (error + nat) \<times> hstate" where
  "deleteOne e c flt st =
     (let st' = logged (DeleteOne c flt) st; s = fst st in
      case db_throw e (DeleteOne c flt) of
        Some m \<Rightarrow> (Inl (MongoError m), st')
      | None \<Rightarrow>
          (case List.find (matches e flt) (get_coll c s) of
             None \<Rightarrow> (Inr 0, st')
           | Some d \<Rightarrow>
               (Inr 1, (put_coll c (remove_first (matches e flt) (get_coll c s)) s, snd st'))))"

section \<open>Requests, responses and routing\<close>

datatype verb = GET | POST | PUT | PATCH | DELETE

text \<open>
  A request: its verb, the segments of its path, the \<^verbatim>\<open>Authorization\<close> header,
  the parsed query string and the parsed JSON body.
\<close>

record request =
  verb :: verb
  path :: "string list"
  authorization :: "string option"
  query :: doc
  body :: jv

text \<open>
  What a handler does with a request: it sends a response (status and body), or an
  error escapes it unhandled. \<open>Unrouted\<close>: no route of the application matches.
\<close>

datatype outcome = Sent nat jv | Escaped error | Unrouted

datatype endpoint =
    Root
  | PostReviews
  | GetReviews
  | PostAssignments
  | GetAssignments
  | GetAssignment
  | GetLeaderboard
  | PutAssignment
  | DeleteAssignment
  | GetSubmitted
  | PostSubmitted
  | PatchSubmitted
  | GetPendingSubmitted

text \<open>The routing table of \<^verbatim>\<open>run()\<close>, with the \<^verbatim>\<open>:id\<close> parameter.\<close>

fun route_of :: "verb \<Rightarrow> string list \<Rightarrow> (endpoint \<times> string) option" where
  "route_of v p =
     (if v = GET \<and> p = [] then Some (Root, [])
      else if v = POST \<and> p = [''reviews''] then Some (PostReviews, [])
      else if v = GET \<and> p = [''reviews''] then Some (GetReviews, [])
      else if v = POST \<and> p = [''assignments''] then Some (PostAssignments, [])
      else if v = GET \<and> p = [''assignments''] then Some (GetAssignments, [])
      else if v = GET \<and> length p = 2 \<and> hd p = ''assignment'' then Some (GetAssignment, p ! 1)
      else if v = GET \<and> p = [''leaderboard''] then Some (GetLeaderboard, [])
      else if v = PUT \<and> length p = 2 \<and> hd p = ''assignments'' then Some (PutAssignment, p ! 1)
      else if v = DELETE \<and> length p = 2 \<and> hd p = ''assignments''
        then Some (DeleteAssignment, p ! 1)
      else if v = GET \<and> p = [''submitted-assignments''] then Some (GetSubmitted, [])
      else if v = POST \<and> p = [''submitted-assignments''] then Some (PostSubmitted, [])
      else if v = PATCH \<and> length p = 2 \<and> hd p = ''submitted-assignments''
        then Some (PatchSubmitted, p ! 1)
      else if v = GET \<and> p = [''pending-submitted-assignments'']
        then Some (GetPendingSubmitted, [])
      else None)"

declare route_of.simps [simp del]

definition ok :: "jv \<Rightarrow> outcome" where
  "ok b = Sent 200 b"

text \<open>The catch blocks: \<^verbatim>\<open>res.status(500).send({ success: false, message: error.message })\<close>.\<close>

definition fail500 :: "error \<Rightarrow> outcome" where
  "fail500 err = Sent 500 (JObj [(''success'', JBool False), (''message'', JStr (message err))])"

definition docs_body :: "doc list \<Rightarrow> jv" where
  "docs_body ds = JArr (map JObj ds)"

section \<open>The middleware \<^verbatim>\<open>verifyToken\<close>\<close>

type_synonym handler = "env \<Rightarrow> request \<Rightarrow> hstate \<Rightarrow> outcome \<times> hstate"

definition bearer_ok :: "string option \<Rightarrow> bool" where
  "bearer_ok h = (case h of None \<Rightarrow> False | Some a \<Rightarrow> a \<noteq> [] \<and> startsWith a ''Bearer '')"

definition token_of :: "string option \<Rightarrow> string option" where
  "token_of h = (case h of None \<Rightarrow> None | Some a \<Rightarrow> index_opt (split_on CHR '' '' a) 1)"

definition verifyToken :: "handler \<Rightarrow> handler" where
  "verifyToken next e req st =
     (if \<not> bearer_ok (authorization req) then
        (Sent 401 (JObj [(''success'', JBool False), (''message'', JStr ''Unauthorized'')]), st)
      else if verifyIdToken e (token_of (authorization req)) then next e req st
      else (Sent 403 (JObj [(''success'', JBool False), (''message'', JStr ''Forbidden'')]), st))"

text \<open>A request passes \<^verbatim>\<open>verifyToken\<close>: both of its tests succeed.\<close>

definition verified :: "env \<Rightarrow> request \<Rightarrow> bool" where
  "verified e req =
     (bearer_ok (authorization req) \<and> verifyIdToken e (token_of (authorization req)))"

section \<open>The route handlers\<close>

definition root :: handler where
  "root e req st = (ok (JStr ''Server is running''), st)"

definition post_reviews :: handler where
  "post_reviews e req st =
     (case member (body req) ''name'' of
        Inl err \<Rightarrow> (fail500 err, st)
      | Inr name \<Rightarrow>
          let image = opt_member (body req) ''image'';
              email = opt_member (body req) ''email'';
              text = opt_member (body req) ''text''
          in if \<not> truthy name \<or> \<not> truthy email \<or> \<not> truthy text then
               (Sent 400 (JObj [(''error'', JStr ''Missing fields'')]), st)
             else (case insertOne e Reviews
                          (JObj [(''name'', name), (''image'', image), (''email'', email),
                                 (''text'', text), (''createdAt'', JDate (now e))]) st of
                     (Inl err, st') \<Rightarrow> (fail500 err, st')
                   | (Inr oid, st') \<Rightarrow>
                       (Sent 201 (JObj [(''success'', JBool True),
                                        (''message'', JStr ''Review added successfully''),
                                        (''insertedId'', oid)]), st')))"

text \<open>\<^verbatim>\<open>parseInt(x) || d\<close>: NaN and 0 are falsy.\<close>

definition parseInt_or :: "env \<Rightarrow> jv \<Rightarrow> int \<Rightarrow> int" where
  "parseInt_or e v d = (case parseInt e v of None \<Rightarrow> d | Some n \<Rightarrow> if n = 0 then d else n)"

definition get_reviews :: handler where
  "get_reviews e req st =
     (let limit = parseInt_or e (get_field (query req) ''limit'') 12;
          page = parseInt_or e (get_field (query req) ''page'') 1;
          skip = (page - 1) * limit
      in case find_cursor e Reviews [] [(''createdAt'', JNum (- 1))] skip limit st of
           (Inl err, st') \<Rightarrow> (Escaped err, st')
         | (Inr ds, st') \<Rightarrow> (ok (docs_body ds), st'))"

definition post_assignments :: handler where
  "post_assignments e req st =
     (case insertOne e Assignments (body req) st of
        (Inl err, st') \<Rightarrow> (fail500 err, st')
      | (Inr oid, st') \<Rightarrow>
          (ok (JObj [(''success'', JBool True),
                     (''message'', JStr ''Assignment created successfully''),
                     (''insertedId'', oid)]), st'))"

definition assignments_filter :: "doc \<Rightarrow> doc" where
  "assignments_filter q =
     (let difficulty = get_field q ''difficulty''; search = get_field q ''search'';
          f1 = (if truthy difficulty then set_field ''difficulty'' difficulty [] else []);
          f2 = (if truthy search
                then set_field ''title'' (JObj [(''$regex'', search), (''$options'', JStr ''i'')]) f1
                else f1)
      in f2)"

definition get_assignments :: handler where
  "get_assignments e req st =
     (case find_all e Assignments (assignments_filter (query req)) st of
        (Inl err, st') \<Rightarrow> (fail500 err, st')
      | (Inr ds, st') \<Rightarrow> (ok (docs_body ds), st'))"

definition not_found :: outcome where
  "not_found = Sent 404 (JObj [(''success'', JBool False), (''message'', JStr ''Assignment not found'')])"

definition get_assignment :: "string \<Rightarrow> handler" where
  "get_assignment ident e req st =
     (case objectId e ident of
        Inl m \<Rightarrow> (fail500 (BSONError m), st)
      | Inr h \<Rightarrow>
          (case findOne e Assignments [(''_id'', JOid h)] st of
             (Inl err, st') \<Rightarrow> (fail500 err, st')
           | (Inr None, st') \<Rightarrow> (not_found, st')
           | (Inr (Some d), st') \<Rightarrow> (ok (JObj d), st')))"

definition leaderboard_pipeline :: "int \<Rightarrow> jv list" where
  "leaderboard_pipeline skip =
     [JObj [(''$group'', JObj [(''_id'', JStr ''$creator.email''),
                               (''name'', JObj [(''$first'', JStr ''$creator.name'')]),
                               (''assignmentCount'', JObj [(''$sum'', JNum 1)])])],
      JObj [(''$sort'', JObj [(''assignmentCount'', JNum (- 1))])],
      JObj [(''$skip'', JNum skip)],
      JObj [(''$limit'', JNum 10)]]"

definition get_leaderboard :: handler where
  "get_leaderboard e req st =
     (let page = parseInt_or e (get_field (query req) ''page'') 1;
          limit = 10;
          skip = (page - 1) * limit
      in case aggregate e Assignments (leaderboard_pipeline skip) st of
           (Inl err, st') \<Rightarrow> (Escaped err, st')
         | (Inr ds, st') \<Rightarrow> (ok (docs_body ds), st'))"

text \<open>
  The \<^verbatim>\<open>$set\<close> document of \<^verbatim>\<open>PUT /assignments/:id\<close>: six property reads of the
  body, the first of which throws when the body is \<^verbatim>\<open>undefined\<close> or \<^verbatim>\<open>null\<close>.
\<close>

definition put_fields :: "jv \<Rightarrow> error + doc" where
  "put_fields b =
     (case member b ''title'' of
        Inl err \<Rightarrow> Inl err
      | Inr title \<Rightarrow>
          Inr [(''title'', title),
               (''description'', opt_member b ''description''),
               (''marks'', opt_member b ''marks''),
               (''thumbnail'', opt_member b ''thumbnail''),
               (''difficulty'', opt_member b ''difficulty''),
               (''dueDate'', opt_member b ''dueDate'')])"

definition put_assignment :: "string \<Rightarrow> handler" where
  "put_assignment ident e req st =
     (case objectId e ident of
        Inl m \<Rightarrow> (fail500 (BSONError m), st)
      | Inr h \<Rightarrow>
          (case put_fields (body req) of
             Inl err \<Rightarrow> (fail500 err, st)
           | Inr fs \<Rightarrow>
               (case updateOne e Assignments [(''_id'', JOid h)] fs st of
                  (Inl err, st') \<Rightarrow> (fail500 err, st')
                | (Inr modifiedCount, st') \<Rightarrow>
                    if modifiedCount > 0 then
                      (ok (JObj [(''success'', JBool True),
                                 (''message'', JStr ''Assignment updated successfully'')]), st')
                    else
                      (Sent 400 (JObj [(''success'', JBool False),
                                       (''message'', JStr ''Nothing was updated'')]), st'))))"

definition delete_assignment :: "string \<Rightarrow> handler" where
  "delete_assignment ident e req st =
     (let email = get_field (query req) ''email'' in
      case objectId e ident of
        Inl m \<Rightarrow> (fail500 (BSONError m), st)
      | Inr h \<Rightarrow>
          (case findOne e Assignments [(''_id'', JOid h)] st of
             (Inl err, st') \<Rightarrow> (fail500 err, st')
           | (Inr None, st') \<Rightarrow> (not_found, st')
           | (Inr (Some assignment), st') \<Rightarrow>
               if \<not> strict_eq (opt_member (get_field assignment ''creator'') ''email'') email then
                 (Sent 403 (JObj [(''success'', JBool False),
                    (''message'', JStr ''You are not authorized to delete this assignment.'')]),
                  st')
               else
                 (case deleteOne e Assignments [(''_id'', JOid h)] st' of
                    (Inl err, st'') \<Rightarrow> (fail500 err, st'')
                  | (Inr deletedCount, st'') \<Rightarrow>
                      if deletedCount > 0 then (ok (JObj [(''success'', JBool True)]), st'')
                      else
                        (Sent 500 (JObj [(''success'', JBool False),
                                         (''message'', JStr ''Delete failed internally.'')]),
                         st''))))"

definition get_submitted :: handler where
  "get_submitted e req st =
     (let email = get_field (query req) ''email'' in
      if \<not> truthy email then
        (Sent 400 (JObj [(''message'', JStr ''Email is required'')]), st)
      else (case find_all e SubmittedAssignments [(''userEmail'', email)] st of
              (Inl err, st') \<Rightarrow> (fail500 err, st')
            | (Inr ds, st') \<Rightarrow> (ok (docs_body ds), st')))"

definition submission_doc :: "env \<Rightarrow> jv \<Rightarrow> doc" where
  "submission_doc e data =
     set_field ''submittedAt'' (JDate (now e)) (set_field ''status'' (JStr ''pending'') (spread data))"

definition post_submitted :: handler where
  "post_submitted e req st =
     (case insertOne e SubmittedAssignments (JObj (submission_doc e (body req))) st of
        (Inl err, st') \<Rightarrow> (fail500 err, st')
      | (Inr oid, st') \<Rightarrow> (ok (JObj [(''success'', JBool True), (''insertedId'', oid)]), st'))"

definition marking_fields :: "env \<Rightarrow> jv \<Rightarrow> jv \<Rightarrow> doc" where
  "marking_fields e obtainedMarks feedback =
     [(''obtainedMarks'', obtainedMarks), (''feedback'', feedback),
      (''status'', JStr ''completed''), (''markedAt'', JDate (now e))]"

definition patch_submitted :: "string \<Rightarrow> handler" where
  "patch_submitted ident e req st =
     (case member (body req) ''obtainedMarks'' of
        Inl err \<Rightarrow> (Escaped err, st)
      | Inr obtainedMarks \<Rightarrow>
          let feedback = opt_member (body req) ''feedback'' in
          (case objectId e ident of
             Inl m \<Rightarrow> (fail500 (BSONError m), st)
           | Inr h \<Rightarrow>
               (case updateOne e SubmittedAssignments [(''_id'', JOid h)]
                       (marking_fields e obtainedMarks feedback) st of
                  (Inl err, st') \<Rightarrow> (fail500 err, st')
                | (Inr modifiedCount, st') \<Rightarrow>
                    (ok (JObj [(''success'', JBool True),
                               (''modifiedCount'', JNum (int modifiedCount))]), st'))))"

definition get_pending_submitted :: handler where
  "get_pending_submitted e req st =
     (let email = get_field (query req) ''email'' in
      if \<not> truthy email then
        (Sent 400 (JObj [(''success'', JBool False), (''message'', JStr ''Email is required'')]), st)
      else (case find_all e SubmittedAssignments
                   [(''status'', JStr ''pending''), (''userEmail'', JObj [(''$ne'', email)])] st of
              (Inl err, st') \<Rightarrow> (fail500 err, st')
            | (Inr ds, st') \<Rightarrow> (ok (docs_body ds), st')))"

text \<open>The handler chain registered for each endpoint.\<close>

fun handler_of :: "endpoint \<Rightarrow> string \<Rightarrow> handler" where
  "handler_of Root ident = root"
| "handler_of PostReviews ident = post_reviews"
| "handler_of GetReviews ident = get_reviews"
| "handler_of PostAssignments ident = verifyToken post_assignments"
| "handler_of GetAssignments ident = get_assignments"
| "handler_of GetAssignment ident = get_assignment ident"
| "handler_of GetLeaderboard ident = get_leaderboard"
| "handler_of PutAssignment ident = verifyToken (put_assignment ident)"
| "handler_of DeleteAssignment ident = verifyToken (delete_assignment ident)"
| "handler_of GetSubmitted ident = verifyToken get_submitted"
| "handler_of PostSubmitted ident = verifyToken post_submitted"
| "handler_of PatchSubmitted ident = verifyToken (patch_submitted ident)"
| "handler_of GetPendingSubmitted ident = verifyToken get_pending_submitted"

text \<open>
  Handling one request on a store: the outcome, the store afterwards and the driver
  calls issued, in order.
\<close>

definition handle :: "env \<Rightarrow> request \<Rightarrow> store \<Rightarrow> outcome \<times> store \<times> db_call list" where
  "handle e req s =
     (case route_of (verb req) (path req) of
        None \<Rightarrow> (Unrouted, s, [])
      | Some (ep, ident) \<Rightarrow> handler_of ep ident e req (s, []))"

definition response :: "outcome \<times> store \<times> db_call list \<Rightarrow> outcome" where
  "response r = fst r"

definition store_after :: "outcome \<times> store \<times> db_call list \<Rightarrow> store" where
  "store_after r = fst (snd r)"

definition calls :: "outcome \<times> store \<times> db_call list \<Rightarrow> db_call list" where
  "calls r = snd (snd r)"

definition endpoint_of :: "request \<Rightarrow> endpoint option" where
  "endpoint_of req = map_option fst (route_of (verb req) (path req))"

section \<open>A sample environment, store and requests\<close>

text \<open>
  A concrete environment on which the handlers can be run: the \<^verbatim>\<open>ObjectId\<close>
  constructor of current drivers accepts exactly the strings of 24 hexadecimal digits,
  the verifier accepts one token, no driver call rejects, and ids, clock and paging
  are fixed.
\<close>

definition hex24 :: "string \<Rightarrow> string + string" where
  "hex24 i =
     (if length i = 24 \<and> list_all (\<lambda>c. c \<in> set ''0123456789abcdefABCDEF'') i then Inr i
      else Inl ''input must be a 24 character hex string, 12 byte Uint8Array, or an integer'')"

definition sample_env :: env where
  "sample_env =
     \<lparr>verifyIdToken = (\<lambda>t. t = Some ''good-token''),
      objectId = hex24,
      createPk = ''cccccccccccccccccccccccc'',
      now = 1700000000000,
      parseInt = (\<lambda>v. None),
      db_throw = (\<lambda>c. None),
      mongo_op = (\<lambda>c v. False),
      cursor = (\<lambda>c ds. ds)\<rparr>"

text \<open>The same environment with a store whose every call rejects.\<close>

definition failing_env :: env where
  "failing_env = sample_env\<lparr>db_throw := (\<lambda>c. Some ''connection refused'')\<rparr>"

definition essay :: doc where
  "essay =
     [(''_id'', JOid ''aaaaaaaaaaaaaaaaaaaaaaaa''),
      (''title'', JStr ''Essay''),
      (''marks'', JNum 50),
      (''difficulty'', JStr ''easy''),
      (''creator'', JObj [(''email'', JStr ''ann@example.com''), (''name'', JStr ''Ann'')])]"

definition essay_submission :: doc where
  "essay_submission =
     [(''_id'', JOid ''bbbbbbbbbbbbbbbbbbbbbbbb''),
      (''userEmail'', JStr ''bob@example.com''),
      (''status'', JStr ''pending''),
      (''submittedAt'', JDate 1690000000000)]"

definition sample_store :: store where
  "sample_store = \<lparr>assignments = [essay], reviews = [], submittedAssignments = [essay_submission]\<rparr>"

definition bare :: "verb \<Rightarrow> string list \<Rightarrow> request" where
  "bare v p = \<lparr>verb = v, path = p, authorization = None, query = [], body = JObj []\<rparr>"

definition signed :: "verb \<Rightarrow> string list \<Rightarrow> request" where
  "signed v p = (bare v p)\<lparr>authorization := Some ''Bearer good-token''\<rparr>"

section \<open>Which routes are guarded, and what each route is for\<close>

text \<open>The routes registered with \<^verbatim>\<open>verifyToken\<close> in front of their handler.\<close>

definition protected :: "endpoint \<Rightarrow> bool" where
  "protected ep = (ep \<in> {PostAssignments, PutAssignment, DeleteAssignment, GetSubmitted,
                          PostSubmitted, PatchSubmitted, GetPendingSubmitted})"

text \<open>The resource a route belongs to, by its path; \<^verbatim>\<open>GET /\<close> belongs to none.\<close>

datatype resource = AssignmentsR | SubmissionsR | ReviewsR | LeaderboardR

datatype crud = Create | Read | Update | Delete

fun resource_of :: "endpoint \<Rightarrow> resource option" where
  "resource_of Root = None"
| "resource_of PostReviews = Some ReviewsR"
| "resource_of GetReviews = Some ReviewsR"
| "resource_of PostAssignments = Some AssignmentsR"
| "resource_of GetAssignments = Some AssignmentsR"
| "resource_of GetAssignment = Some AssignmentsR"
| "resource_of GetLeaderboard = Some LeaderboardR"
| "resource_of PutAssignment = Some AssignmentsR"
| "resource_of DeleteAssignment = Some AssignmentsR"
| "resource_of GetSubmitted = Some SubmissionsR"
| "resource_of PostSubmitted = Some SubmissionsR"
| "resource_of PatchSubmitted = Some SubmissionsR"
| "resource_of GetPendingSubmitted = Some SubmissionsR"

text \<open>The kind of operation a driver call is.\<close>

fun crud_of :: "db_call \<Rightarrow> crud" where
  "crud_of (InsertOne c v) = Create"
| "crud_of (Find c f) = Read"
| "crud_of (FindCursor c f srt sk lim) = Read"
| "crud_of (FindOne c f) = Read"
| "crud_of (Aggregate c p) = Read"
| "crud_of (UpdateOne c f fs) = Update"
| "crud_of (DeleteOne c f) = Delete"

text \<open>
  A route performs an operation when some request to it, in some environment and on
  some store, issues a driver call of that kind; a resource is provided with an
  operation when one of its routes performs it.
\<close>

definition performs :: "endpoint \<Rightarrow> crud \<Rightarrow> bool" where
  "performs ep op =
     (\<exists>i e req s. op \<in> crud_of ` set (snd (snd (handler_of ep i e req (s, [])))))"

definition provides :: "resource \<Rightarrow> crud \<Rightarrow> bool" where
  "provides r op = (\<exists>ep. resource_of ep = Some r \<and> performs ep op)"

text \<open>The kinds of driver call in each handler's body.\<close>

fun endpoint_ops :: "endpoint \<Rightarrow> crud list" where
  "endpoint_ops Root = []"
| "endpoint_ops PostReviews = [Create]"
| "endpoint_ops GetReviews = [Read]"
| "endpoint_ops PostAssignments = [Create]"
| "endpoint_ops GetAssignments = [Read]"
| "endpoint_ops GetAssignment = [Read]"
| "endpoint_ops GetLeaderboard = [Read]"
| "endpoint_ops PutAssignment = [Update]"
| "endpoint_ops DeleteAssignment = [Read, Delete]"
| "endpoint_ops GetSubmitted = [Read]"
| "endpoint_ops PostSubmitted = [Create]"
| "endpoint_ops PatchSubmitted = [Update]"
| "endpoint_ops GetPendingSubmitted = [Read]"

section \<open>Submissions as the routes write them\<close>

text \<open>
  A submission as \<^verbatim>\<open>POST /submitted-assignments\<close> inserts it, and as
  \<^verbatim>\<open>PATCH /submitted-assignments/:id\<close> leaves it.
\<close>

definition fresh_submission :: "env \<Rightarrow> doc \<Rightarrow> bool" where
  "fresh_submission e d =
     (get_field d ''status'' = JStr ''pending'' \<and> get_field d ''submittedAt'' = JDate (now e))"

definition marked_submission :: "env \<Rightarrow> doc \<Rightarrow> bool" where
  "marked_submission e d =
     (get_field d ''status'' = JStr ''completed'' \<and> get_field d ''markedAt'' = JDate (now e))"

lemmas handler_defs = Let_def handle_def response_def store_after_def calls_def route_of.simps
  verifyToken_def bearer_ok_def token_of_def startsWith_def index_opt_def
  root_def post_reviews_def get_reviews_def post_assignments_def get_assignments_def
  get_assignment_def get_leaderboard_def put_assignment_def delete_assignment_def
  get_submitted_def post_submitted_def patch_submitted_def get_pending_submitted_def
  insertOne_def find_all_def find_cursor_def aggregate_def findOne_def updateOne_def deleteOne_def
  logged_def matches_def get_field_def nullify_def bson_def apply_set_def
  ok_def fail500_def docs_body_def not_found_def parseInt_or_def assignments_filter_def
  leaderboard_pipeline_def put_fields_def submission_doc_def marking_fields_def

lemmas sample_defs = sample_env_def failing_env_def essay_def essay_submission_def sample_store_def
  bare_def signed_def hex24_def

section \<open>Driver calls: what each one logs\<close>

lemma insertOne_log:
  "insertOne e c v (s, tr) = (r, s', tr') \<Longrightarrow> tr' = tr @ [InsertOne c v]"
  by (auto simp: insertOne_def Let_def logged_def split: option.splits if_splits)

lemma find_all_st:
  "find_all e c f (s, tr) = (r, s', tr') \<Longrightarrow> s' = s \<and> tr' = tr @ [Find c f]"
  by (auto simp: find_all_def Let_def logged_def split: option.splits)

lemma find_cursor_st:
  "find_cursor e c f srt sk lim (s, tr) = (r, s', tr') \<Longrightarrow>
     s' = s \<and> tr' = tr @ [FindCursor c f srt sk lim]"
  by (auto simp: find_cursor_def Let_def logged_def split: option.splits)

lemma aggregate_st:
  "aggregate e c p (s, tr) = (r, s', tr') \<Longrightarrow> s' = s \<and> tr' = tr @ [Aggregate c p]"
  by (auto simp: aggregate_def Let_def logged_def split: option.splits)

lemma findOne_st:
  "findOne e c f (s, tr) = (r, s', tr') \<Longrightarrow> s' = s \<and> tr' = tr @ [FindOne c f]"
  by (auto simp: findOne_def Let_def logged_def split: option.splits)

lemma updateOne_log:
  "updateOne e c f fs (s, tr) = (r, s', tr') \<Longrightarrow> tr' = tr @ [UpdateOne c f fs]"
  by (auto simp: updateOne_def Let_def logged_def split: option.splits if_splits)

lemma deleteOne_log:
  "deleteOne e c f (s, tr) = (r, s', tr') \<Longrightarrow> tr' = tr @ [DeleteOne c f]"
  by (auto simp: deleteOne_def Let_def logged_def split: option.splits)

lemmas log_dest = insertOne_log find_all_st find_cursor_st aggregate_st findOne_st
  updateOne_log deleteOne_log

lemma delete_assignment_calls:
  "snd (snd (delete_assignment i e req (s, []))) = [] \<or>
   (\<exists>h. objectId e i = Inr h \<and>
     (snd (snd (delete_assignment i e req (s, []))) = [FindOne Assignments [(''_id'', JOid h)]] \<or>
      snd (snd (delete_assignment i e req (s, []))) =
        [FindOne Assignments [(''_id'', JOid h)], DeleteOne Assignments [(''_id'', JOid h)]]))"
  by (auto simp: delete_assignment_def Let_def split: sum.splits prod.splits option.splits dest!: log_dest)

section \<open>Routing a request to its handler\<close>

lemma handle_routed:
  "route_of (verb req) (path req) = Some (ep, i) \<Longrightarrow>
     calls (handle e req s) = snd (snd (handler_of ep i e req (s, [])))"
  by (simp add: handle_def calls_def)

lemma handle_unrouted:
  "route_of (verb req) (path req) = None \<Longrightarrow> calls (handle e req s) = []"
  by (simp add: handle_def calls_def)

section \<open>Token verification\<close>

lemma protected_handler:
  "protected ep \<Longrightarrow> \<exists>h. handler_of ep i = verifyToken h"
  by (cases ep) (auto simp: protected_def)

lemma handle_protected:
  assumes "endpoint_of req = Some ep" "protected ep"
  shows "\<exists>h. handle e req s = verifyToken h e req (s, [])"
proof -
  obtain i where r: "route_of (verb req) (path req) = Some (ep, i)"
    using assms(1) by (auto simp: endpoint_of_def)
  obtain h where "handler_of ep i = verifyToken h"
    using protected_handler [OF assms(2)] by blast
  then show ?thesis using r by (auto simp: handle_def)
qed

lemma public_handler:
  "\<not> protected ep \<Longrightarrow>
     handler_of ep i e (req\<lparr>authorization := a\<rparr>) st = handler_of ep i e req st"
  by (cases ep)
     (simp_all add: protected_def root_def post_reviews_def get_reviews_def get_assignments_def
        get_assignment_def get_leaderboard_def Let_def cong: sum.case_cong)

text \<open>
  C2 (as amended). On the routes registered with \<^verbatim>\<open>verifyToken\<close>
  (\<^verbatim>\<open>POST /assignments\<close>, \<^verbatim>\<open>PUT\<close> and \<^verbatim>\<open>DELETE /assignments/:id\<close>,
  \<^verbatim>\<open>GET\<close>, \<^verbatim>\<open>POST /submitted-assignments\<close>, \<^verbatim>\<open>PATCH /submitted-assignments/:id\<close>,
  \<^verbatim>\<open>GET /pending-submitted-assignments\<close>) a request whose Authorization header is
  absent or does not start with \<^verbatim>\<open>Bearer \<close> is answered 401, one whose token fails
  verification is answered 403, in both cases without a driver call and with the store
  unchanged, and a driver call is issued only after a successful verification. Every
  other route is handled without looking at the Authorization header.
\<close>

theorem token_gate:
  assumes "endpoint_of req = Some ep"
  shows "(protected ep \<longrightarrow>
           (\<not> bearer_ok (authorization req) \<longrightarrow>
              response (handle e req s) =
                Sent 401 (JObj [(''success'', JBool False), (''message'', JStr ''Unauthorized'')]) \<and>
              calls (handle e req s) = [] \<and> store_after (handle e req s) = s) \<and>
           (bearer_ok (authorization req) \<and>
            \<not> verifyIdToken e (token_of (authorization req)) \<longrightarrow>
              response (handle e req s) =
                Sent 403 (JObj [(''success'', JBool False), (''message'', JStr ''Forbidden'')]) \<and>
              calls (handle e req s) = [] \<and> store_after (handle e req s) = s) \<and>
           (calls (handle e req s) \<noteq> [] \<longrightarrow>
              bearer_ok (authorization req) \<and> verifyIdToken e (token_of (authorization req)))) \<and>
         (\<not> protected ep \<longrightarrow> handle e (req\<lparr>authorization := a\<rparr>) s = handle e req s)"
proof (cases "protected ep")
  case True
  then obtain h where "handle e req s = verifyToken h e req (s, [])"
    using handle_protected [OF assms] by blast
  then show ?thesis
    using True by (simp add: verifyToken_def response_def calls_def store_after_def)
next
  case False
  obtain i where r: "route_of (verb req) (path req) = Some (ep, i)"
    using assms by (auto simp: endpoint_of_def)
  then show ?thesis
    using False by (simp add: handle_def public_handler)
qed

text \<open>The header test of \<^verbatim>\<open>verifyToken\<close>, in the words of the claim.\<close>

lemma bearer_ok_iff:
  "bearer_ok a \<longleftrightarrow> (\<exists>h. a = Some h \<and> startsWith h ''Bearer '')"
  by (cases a) (auto simp: bearer_ok_def startsWith_def)

theorem token_gate_witness:
  "endpoint_of (bare POST [''assignments'']) = Some PostAssignments \<and> protected PostAssignments \<and>
   \<not> bearer_ok (authorization (bare POST [''assignments''])) \<and>
   response (handle sample_env (bare POST [''assignments'']) sample_store) =
     Sent 401 (JObj [(''success'', JBool False), (''message'', JStr ''Unauthorized'')]) \<and>
   calls (handle sample_env (bare POST [''assignments'']) sample_store) = [] \<and>
   store_after (handle sample_env (bare POST [''assignments'']) sample_store) = sample_store"
proof -
  have a: "endpoint_of (bare POST [''assignments'']) = Some PostAssignments"
    by (simp add: endpoint_of_def route_of.simps bare_def)
  have b: "protected PostAssignments"
    by (simp add: protected_def)
  have c: "\<not> bearer_ok (authorization (bare POST [''assignments'']))"
    by (simp add: bearer_ok_def bare_def)
  from token_gate [OF a, of sample_env sample_store] c a b show ?thesis
    by blast
qed

text \<open>
  C2 as stated fails: \<^verbatim>\<open>GET /assignments\<close> has no \<^verbatim>\<open>verifyToken\<close>; a request
  without an Authorization header reaches the store and is answered 200.
\<close>

theorem public_route_reaches_store:
  "authorization (bare GET [''assignments'']) = None \<and>
   calls (handle sample_env (bare GET [''assignments'']) sample_store) = [Find Assignments []] \<and>
   response (handle sample_env (bare GET [''assignments'']) sample_store) =
     Sent 200 (JArr [JObj essay])"
  by (simp add: handler_defs sample_defs)

section \<open>Errors thrown by the store\<close>

text \<open>
  C3 at its failing input. \<^verbatim>\<open>GET /reviews\<close> and \<^verbatim>\<open>GET /leaderboard\<close> await their
  driver call outside any \<^verbatim>\<open>try\<close>: when the call rejects, the error escapes the
  handler and no 500 response is sent. \<^verbatim>\<open>GET /assignments\<close>, like every other route
  with a driver call, catches the same error and answers 500 with its message.
\<close>

theorem unhandled_store_error:
  "response (handle failing_env (bare GET [''reviews'']) sample_store) =
     Escaped (MongoError ''connection refused'') \<and>
   response (handle failing_env (bare GET [''leaderboard'']) sample_store) =
     Escaped (MongoError ''connection refused'') \<and>
   response (handle failing_env (bare GET [''assignments'']) sample_store) =
     Sent 500 (JObj [(''success'', JBool False), (''message'', JStr ''connection refused'')])"
  by (simp add: handler_defs sample_defs)

section \<open>Operations provided for each resource\<close>

lemma verifyToken_kinds:
  "crud_of ` set (snd (snd (verifyToken h e req (s, [])))) \<subseteq>
   crud_of ` set (snd (snd (h e req (s, []))))"
  by (simp add: verifyToken_def)

lemma handler_kinds:
  "crud_of ` set (snd (snd (handler_of ep i e req (s, [])))) \<subseteq> set (endpoint_ops ep)"
proof (cases ep)
  case Root
  then show ?thesis by (simp add: root_def)
next
  case PostReviews
  then show ?thesis
    by (auto simp: post_reviews_def Let_def split: sum.splits prod.splits dest!: log_dest)
next
  case GetReviews
  then show ?thesis
    by (auto simp: get_reviews_def Let_def split: sum.splits prod.splits dest!: log_dest)
next
  case PostAssignments
  have "crud_of ` set (snd (snd (post_assignments e req (s, [])))) \<subseteq> {Create}"
    by (auto simp: post_assignments_def split: sum.splits prod.splits dest!: log_dest)
  then show ?thesis
    using PostAssignments verifyToken_kinds [of post_assignments e req s] by auto
next
  case GetAssignments
  then show ?thesis
    by (auto simp: get_assignments_def split: sum.splits prod.splits dest!: log_dest)
next
  case GetAssignment
  then show ?thesis
    by (auto simp: get_assignment_def split: sum.splits prod.splits option.splits dest!: log_dest)
next
  case GetLeaderboard
  then show ?thesis
    by (auto simp: get_leaderboard_def Let_def split: sum.splits prod.splits dest!: log_dest)
next
  case PutAssignment
  have "crud_of ` set (snd (snd (put_assignment i e req (s, [])))) \<subseteq> {Update}"
    by (auto simp: put_assignment_def split: sum.splits prod.splits dest!: log_dest)
  then show ?thesis
    using PutAssignment verifyToken_kinds [of "put_assignment i" e req s] by auto
next
  case DeleteAssignment
  have "crud_of ` set (snd (snd (delete_assignment i e req (s, [])))) \<subseteq> {Read, Delete}"
    using delete_assignment_calls [of i e req s] by auto
  then show ?thesis
    using DeleteAssignment verifyToken_kinds [of "delete_assignment i" e req s] by auto
next
  case GetSubmitted
  have "crud_of ` set (snd (snd (get_submitted e req (s, [])))) \<subseteq> {Read}"
    by (auto simp: get_submitted_def Let_def split: sum.splits prod.splits dest!: log_dest)
  then show ?thesis
    using GetSubmitted verifyToken_kinds [of get_submitted e req s] by auto
next
  case PostSubmitted
  have "crud_of ` set (snd (snd (post_submitted e req (s, [])))) \<subseteq> {Create}"
    by (auto simp: post_submitted_def split: sum.splits prod.splits dest!: log_dest)
  then show ?thesis
    using PostSubmitted verifyToken_kinds [of post_submitted e req s] by auto
next
  case PatchSubmitted
  have "crud_of ` set (snd (snd (patch_submitted i e req (s, [])))) \<subseteq> {Update}"
    by (auto simp: patch_submitted_def Let_def split: sum.splits prod.splits dest!: log_dest)
  then show ?thesis
    using PatchSubmitted verifyToken_kinds [of "patch_submitted i" e req s] by auto
next
  case GetPendingSubmitted
  have "crud_of ` set (snd (snd (get_pending_submitted e req (s, [])))) \<subseteq> {Read}"
    by (auto simp: get_pending_submitted_def Let_def split: sum.splits prod.splits dest!: log_dest)
  then show ?thesis
    using GetPendingSubmitted verifyToken_kinds [of get_pending_submitted e req s] by auto
qed

lemma performs_sound: "performs ep op \<Longrightarrow> op \<in> set (endpoint_ops ep)"
  using handler_kinds by (fastforce simp: performs_def)

lemma performsI:
  "op \<in> crud_of ` set (snd (snd (handler_of ep i e req (s, [])))) \<Longrightarrow> performs ep op"
  unfolding performs_def by blast

lemma providesI: "resource_of ep = Some r \<Longrightarrow> performs ep op \<Longrightarrow> provides r op"
  unfolding provides_def by blast

lemma performs_post_reviews: "performs PostReviews Create"
  by (rule performsI [where i = "[]" and e = sample_env and s = sample_store and
        req = "(bare POST [''reviews''])\<lparr>body := JObj [(''name'', JStr ''Al''),
                 (''email'', JStr ''al@example.com''), (''text'', JStr ''Nice'')]\<rparr>"])
     (simp add: handler_defs sample_defs)

lemma performs_get_reviews: "performs GetReviews Read"
  by (rule performsI [where i = "[]" and e = sample_env and s = sample_store and
        req = "bare GET [''reviews'']"])
     (simp add: handler_defs sample_defs)

lemma performs_post_assignments: "performs PostAssignments Create"
  by (rule performsI [where i = "[]" and e = sample_env and s = sample_store and
        req = "signed POST [''assignments'']"])
     (simp add: handler_defs sample_defs)

lemma performs_get_assignments: "performs GetAssignments Read"
  by (rule performsI [where i = "[]" and e = sample_env and s = sample_store and
        req = "bare GET [''assignments'']"])
     (simp add: handler_defs sample_defs)

lemma performs_put_assignment: "performs PutAssignment Update"
  by (rule performsI [where i = "''aaaaaaaaaaaaaaaaaaaaaaaa''" and e = sample_env
        and s = sample_store and req = "signed PUT [''assignments'', ''aaaaaaaaaaaaaaaaaaaaaaaa'']"])
     (simp add: handler_defs sample_defs)

lemma performs_delete_assignment: "performs DeleteAssignment Delete"
  by (rule performsI [where i = "''aaaaaaaaaaaaaaaaaaaaaaaa''" and e = sample_env
        and s = sample_store
        and req = "(signed DELETE [''assignments'', ''aaaaaaaaaaaaaaaaaaaaaaaa''])
                     \<lparr>query := [(''email'', JStr ''ann@example.com'')]\<rparr>"])
     (simp add: handler_defs sample_defs)

lemma performs_get_leaderboard: "performs GetLeaderboard Read"
  by (rule performsI [where i = "[]" and e = sample_env and s = sample_store and
        req = "bare GET [''leaderboard'']"])
     (simp add: handler_defs sample_defs)

lemma performs_post_submitted: "performs PostSubmitted Create"
  by (rule performsI [where i = "[]" and e = sample_env and s = sample_store and
        req = "signed POST [''submitted-assignments'']"])
     (simp add: handler_defs sample_defs)

lemma performs_get_submitted: "performs GetSubmitted Read"
  by (rule performsI [where i = "[]" and e = sample_env and s = sample_store and
        req = "(signed GET [''submitted-assignments''])
                 \<lparr>query := [(''email'', JStr ''bob@example.com'')]\<rparr>"])
     (simp add: handler_defs sample_defs)

lemma performs_patch_submitted: "performs PatchSubmitted Update"
  by (rule performsI [where i = "''bbbbbbbbbbbbbbbbbbbbbbbb''" and e = sample_env
        and s = sample_store
        and req = "signed PATCH [''submitted-assignments'', ''bbbbbbbbbbbbbbbbbbbbbbbb'']"])
     (simp add: handler_defs sample_defs)

lemma provides_sound:
  assumes "provides r op"
  shows "r = AssignmentsR \<or> (r = SubmissionsR \<and> op \<noteq> Delete) \<or>
         (r = ReviewsR \<and> (op = Create \<or> op = Read)) \<or> (r = LeaderboardR \<and> op = Read)"
proof -
  obtain ep where ep: "resource_of ep = Some r" "op \<in> set (endpoint_ops ep)"
    using assms performs_sound by (auto simp: provides_def)
  then show ?thesis by (cases ep) auto
qed

text \<open>
  C4 (as amended). The routes provide create, read, update and delete for assignments;
  create, read and update for submissions; create and read for reviews; and read only
  for the leaderboard.
\<close>

theorem crud_coverage:
  "provides r op \<longleftrightarrow>
     r = AssignmentsR \<or> (r = SubmissionsR \<and> op \<noteq> Delete) \<or>
     (r = ReviewsR \<and> (op = Create \<or> op = Read)) \<or> (r = LeaderboardR \<and> op = Read)"
proof
  assume "provides r op"
  then show "r = AssignmentsR \<or> (r = SubmissionsR \<and> op \<noteq> Delete) \<or>
     (r = ReviewsR \<and> (op = Create \<or> op = Read)) \<or> (r = LeaderboardR \<and> op = Read)"
    by (rule provides_sound)
next
  assume a: "r = AssignmentsR \<or> (r = SubmissionsR \<and> op \<noteq> Delete) \<or>
     (r = ReviewsR \<and> (op = Create \<or> op = Read)) \<or> (r = LeaderboardR \<and> op = Read)"
  have p0: "provides AssignmentsR Create"
    by (rule providesI [OF _ performs_post_assignments]) simp
  have p1: "provides AssignmentsR Read"
    by (rule providesI [OF _ performs_get_assignments]) simp
  have p2: "provides AssignmentsR Update"
    by (rule providesI [OF _ performs_put_assignment]) simp
  have p3: "provides AssignmentsR Delete"
    by (rule providesI [OF _ performs_delete_assignment]) simp
  have p4: "provides SubmissionsR Create"
    by (rule providesI [OF _ performs_post_submitted]) simp
  have p5: "provides SubmissionsR Read"
    by (rule providesI [OF _ performs_get_submitted]) simp
  have p6: "provides SubmissionsR Update"
    by (rule providesI [OF _ performs_patch_submitted]) simp
  have p7: "provides ReviewsR Create"
    by (rule providesI [OF _ performs_post_reviews]) simp
  have p8: "provides ReviewsR Read"
    by (rule providesI [OF _ performs_get_reviews]) simp
  have p9: "provides LeaderboardR Read"
    by (rule providesI [OF _ performs_get_leaderboard]) simp
  from a p0 p1 p2 p3 p4 p5 p6 p7 p8 p9 show "provides r op"
    by (cases op) auto
qed

theorem crud_coverage_witness:
  "provides AssignmentsR Delete \<and> provides SubmissionsR Update \<and> provides ReviewsR Read \<and>
   \<not> provides SubmissionsR Delete \<and> \<not> provides ReviewsR Update \<and>
   \<not> provides LeaderboardR Create"
  using crud_coverage [of AssignmentsR Delete] crud_coverage [of SubmissionsR Update]
    crud_coverage [of ReviewsR Read] crud_coverage [of SubmissionsR Delete]
    crud_coverage [of ReviewsR Update] crud_coverage [of LeaderboardR Create]
  by simp

text \<open>
  C4 as stated fails: no route of the leaderboard issues a delete (its only route is
  \<^verbatim>\<open>GET /leaderboard\<close>, an aggregate over the assignments).
\<close>

theorem leaderboard_has_no_delete:
  "\<not> provides LeaderboardR Delete"
proof
  assume "provides LeaderboardR Delete"
  then show False using provides_sound by blast
qed

section \<open>The filter of \<^verbatim>\<open>GET /assignments\<close>\<close>

lemma handle_at:
  "route_of (verb req) (path req) = Some (ep, i) \<Longrightarrow>
     handle e req s = handler_of ep i e req (s, [])"
  by (simp add: handle_def)

lemma endpoint_route:
  "endpoint_of req = Some ep \<Longrightarrow> \<exists>i. route_of (verb req) (path req) = Some (ep, i)"
  by (auto simp: endpoint_of_def)

lemma matches_empty: "matches e [] = (\<lambda>d. True)"
  by (rule ext) (simp add: matches_def)

lemma matches_string: "matches e [(k, JStr x)] = (\<lambda>d. get_field d k = JStr x)"
  by (rule ext) (simp add: matches_def)

lemma filter_literal:
  "assignments_filter q =
     (if truthy (get_field q ''difficulty'') then [(''difficulty'', get_field q ''difficulty'')] else []) @
     (if truthy (get_field q ''search'')
      then [(''title'', JObj [(''$regex'', get_field q ''search''), (''$options'', JStr ''i'')])]
      else [])"
  by (simp add: assignments_filter_def Let_def)

text \<open>
  C5 (as amended). For every \<^verbatim>\<open>GET /assignments\<close> request the route issues one
  \<^verbatim>\<open>find\<close> on the assignments whose filter is built from the query parameters
  alone: when \<^verbatim>\<open>difficulty\<close> has a truthy value (for a string: a non-empty one) the
  filter carries that value for the field \<^verbatim>\<open>difficulty\<close>, when \<^verbatim>\<open>search\<close> has a
  truthy value the filter carries, for \<^verbatim>\<open>title\<close>, the regular expression
  \<^verbatim>\<open>search\<close> with option \<^verbatim>\<open>i\<close>, and when neither has one the filter is empty and
  (the call returning) all assignments are sent back. With a non-empty string as
  \<^verbatim>\<open>difficulty\<close> and no \<^verbatim>\<open>search\<close>, the assignments sent back are those whose
  \<^verbatim>\<open>difficulty\<close> equals it. The store is unchanged.
\<close>

theorem assignments_filter_forwarded:
  assumes "endpoint_of req = Some GetAssignments"
  shows "calls (handle e req s) =
           [Find Assignments
             ((if truthy (get_field (query req) ''difficulty'')
               then [(''difficulty'', get_field (query req) ''difficulty'')] else []) @
              (if truthy (get_field (query req) ''search'')
               then [(''title'', JObj [(''$regex'', get_field (query req) ''search''),
                                      (''$options'', JStr ''i'')])]
               else []))] \<and>
         store_after (handle e req s) = s \<and>
         (\<not> truthy (get_field (query req) ''difficulty'') \<and>
          \<not> truthy (get_field (query req) ''search'') \<and>
          db_throw e (Find Assignments []) = None \<longrightarrow>
            response (handle e req s) = Sent 200 (JArr (map JObj (assignments s)))) \<and>
         (\<forall>x. get_field (query req) ''difficulty'' = JStr x \<and> x \<noteq> [] \<and>
              \<not> truthy (get_field (query req) ''search'') \<and>
              db_throw e (Find Assignments [(''difficulty'', JStr x)]) = None \<longrightarrow>
            response (handle e req s) =
              Sent 200 (JArr (map JObj
                (filter (\<lambda>d. get_field d ''difficulty'' = JStr x) (assignments s)))))"
proof -
  obtain i where r: "route_of (verb req) (path req) = Some (GetAssignments, i)"
    using endpoint_route [OF assms] by blast
  have h: "handle e req s = get_assignments e req (s, [])"
    using r by (simp add: handle_at)
  show ?thesis
    unfolding h filter_literal [symmetric]
    by (auto simp: get_assignments_def find_all_def logged_def calls_def store_after_def
          response_def ok_def docs_body_def Let_def matches_empty matches_string filter_literal
        split: option.splits)
qed

theorem assignments_filter_forwarded_witness:
  "endpoint_of ((bare GET [''assignments''])
      \<lparr>query := [(''difficulty'', JStr ''easy''), (''search'', JStr ''ess'')]\<rparr>) = Some GetAssignments \<and>
   calls (handle sample_env ((bare GET [''assignments''])
      \<lparr>query := [(''difficulty'', JStr ''easy''), (''search'', JStr ''ess'')]\<rparr>) sample_store) =
     [Find Assignments [(''difficulty'', JStr ''easy''),
                        (''title'', JObj [(''$regex'', JStr ''ess''), (''$options'', JStr ''i'')])]]"
proof -
  have a: "endpoint_of ((bare GET [''assignments''])
      \<lparr>query := [(''difficulty'', JStr ''easy''), (''search'', JStr ''ess'')]\<rparr>) = Some GetAssignments"
    by (simp add: endpoint_of_def route_of.simps bare_def)
  from assignments_filter_forwarded [OF a, of sample_env sample_store] a show ?thesis
    by (simp add: bare_def get_field_def)
qed

text \<open>
  C5 as stated fails: \<^verbatim>\<open>GET /assignments?difficulty=\<close> carries the parameter
  \<^verbatim>\<open>difficulty\<close>, with the empty string as its value, and the filter forwarded is
  empty: the easy assignment of the sample store is returned.
\<close>

theorem empty_difficulty_not_filtered:
  "map_of (query ((bare GET [''assignments''])\<lparr>query := [(''difficulty'', JStr '''')]\<rparr>)) ''difficulty''
     = Some (JStr '''') \<and>
   calls (handle sample_env ((bare GET [''assignments''])\<lparr>query := [(''difficulty'', JStr '''')]\<rparr>)
            sample_store) = [Find Assignments []] \<and>
   response (handle sample_env ((bare GET [''assignments''])\<lparr>query := [(''difficulty'', JStr '''')]\<rparr>)
            sample_store) = Sent 200 (JArr [JObj essay])"
  by (simp add: handler_defs sample_defs)

section \<open>Validation in \<^verbatim>\<open>POST /reviews\<close>\<close>

lemma missing_not_truthy: "map_of fs k = None \<Longrightarrow> \<not> truthy (get_field fs k)"
  by (simp add: get_field_def)

lemma get_field_set_field:
  "get_field (set_field k v d) k' = (if k' = k then v else get_field d k')"
  by (induction d) (auto simp: get_field_def)

text \<open>
  C6 (as amended). For every \<^verbatim>\<open>POST /reviews\<close> request with an object as body:
  when \<^verbatim>\<open>name\<close>, \<^verbatim>\<open>email\<close> or \<^verbatim>\<open>text\<close> is missing or falsy (the empty
  string, 0, false, null) the route answers 400, issues no driver call and leaves the
  store unchanged; when all three are truthy and the insert returns (the driver call
  does not reject and the generated id is new) the route appends exactly one document
  to the reviews, made of name, image (null when the body has none), email, text, the
  creation time and the id, and answers 201 with that id.
\<close>

theorem post_reviews_validation:
  assumes "endpoint_of req = Some PostReviews" and "body req = JObj fs"
  shows "(\<not> truthy (get_field fs ''name'') \<or> \<not> truthy (get_field fs ''email'') \<or>
          \<not> truthy (get_field fs ''text'') \<longrightarrow>
            response (handle e req s) = Sent 400 (JObj [(''error'', JStr ''Missing fields'')]) \<and>
            calls (handle e req s) = [] \<and> store_after (handle e req s) = s) \<and>
         (truthy (get_field fs ''name'') \<and> truthy (get_field fs ''email'') \<and>
          truthy (get_field fs ''text'') \<and>
          db_throw e (InsertOne Reviews
            (JObj [(''name'', get_field fs ''name''), (''image'', get_field fs ''image''),
                   (''email'', get_field fs ''email''), (''text'', get_field fs ''text''),
                   (''createdAt'', JDate (now e))])) = None \<and>
          JOid (createPk e) \<notin> set (map (\<lambda>d. get_field d ''_id'') (reviews s)) \<longrightarrow>
            response (handle e req s) =
              Sent 201 (JObj [(''success'', JBool True),
                              (''message'', JStr ''Review added successfully''),
                              (''insertedId'', JOid (createPk e))]) \<and>
            store_after (handle e req s) =
              s\<lparr>reviews := reviews s @
                   [[(''name'', get_field fs ''name''),
                     (''image'', if get_field fs ''image'' = JUndef then JNull
                                 else get_field fs ''image''),
                     (''email'', get_field fs ''email''), (''text'', get_field fs ''text''),
                     (''createdAt'', JDate (now e)), (''_id'', JOid (createPk e))]]\<rparr>)"
proof -
  obtain i where r: "route_of (verb req) (path req) = Some (PostReviews, i)"
    using endpoint_route [OF assms(1)] by blast
  have h: "handle e req s = post_reviews e req (s, [])"
    using r by (simp add: handle_at)
  have u: "truthy v \<Longrightarrow> v \<noteq> JUndef" for v by auto
  show ?thesis
    unfolding h
    by (auto simp: post_reviews_def assms(2) insertOne_def logged_def calls_def store_after_def
          response_def Let_def bson_def nullify_def get_field_def dest: u)
qed

theorem post_reviews_validation_witness:
  "endpoint_of ((bare POST [''reviews''])\<lparr>body := JObj [(''name'', JStr ''Al''),
       (''email'', JStr ''al@example.com''), (''text'', JStr ''Nice'')]\<rparr>) = Some PostReviews \<and>
   response (handle sample_env ((bare POST [''reviews''])\<lparr>body := JObj [(''name'', JStr ''Al''),
       (''email'', JStr ''al@example.com''), (''text'', JStr ''Nice'')]\<rparr>) sample_store) =
     Sent 201 (JObj [(''success'', JBool True), (''message'', JStr ''Review added successfully''),
                     (''insertedId'', JOid ''cccccccccccccccccccccccc'')]) \<and>
   reviews (store_after (handle sample_env ((bare POST [''reviews''])\<lparr>body := JObj
       [(''name'', JStr ''Al''), (''email'', JStr ''al@example.com''), (''text'', JStr ''Nice'')]\<rparr>)
       sample_store)) =
     [[(''name'', JStr ''Al''), (''image'', JNull), (''email'', JStr ''al@example.com''),
       (''text'', JStr ''Nice''), (''createdAt'', JDate 1700000000000),
       (''_id'', JOid ''cccccccccccccccccccccccc'')]]"
proof -
  have a: "endpoint_of ((bare POST [''reviews''])\<lparr>body := JObj [(''name'', JStr ''Al''),
       (''email'', JStr ''al@example.com''), (''text'', JStr ''Nice'')]\<rparr>) = Some PostReviews"
    by (simp add: endpoint_of_def route_of.simps bare_def)
  have b: "body ((bare POST [''reviews''])\<lparr>body := JObj [(''name'', JStr ''Al''),
       (''email'', JStr ''al@example.com''), (''text'', JStr ''Nice'')]\<rparr>) =
       JObj [(''name'', JStr ''Al''), (''email'', JStr ''al@example.com''), (''text'', JStr ''Nice'')]"
    by simp
  from post_reviews_validation [OF a b, of sample_env sample_store] a show ?thesis
    by (simp add: get_field_def sample_env_def sample_store_def)
qed

text \<open>
  C6 as stated fails: a body in which \<^verbatim>\<open>name\<close>, \<^verbatim>\<open>email\<close> and \<^verbatim>\<open>text\<close> are
  all present, \<^verbatim>\<open>name\<close> being the empty string, is answered 400 and nothing is
  inserted.
\<close>

theorem empty_name_rejected:
  "map_of [(''name'', JStr ''''), (''email'', JStr ''al@example.com''), (''text'', JStr ''Nice'')]
     ''name'' = Some (JStr '''') \<and>
   response (handle sample_env ((bare POST [''reviews''])\<lparr>body := JObj [(''name'', JStr ''''),
       (''email'', JStr ''al@example.com''), (''text'', JStr ''Nice'')]\<rparr>) sample_store) =
     Sent 400 (JObj [(''error'', JStr ''Missing fields'')]) \<and>
   store_after (handle sample_env ((bare POST [''reviews''])\<lparr>body := JObj [(''name'', JStr ''''),
       (''email'', JStr ''al@example.com''), (''text'', JStr ''Nice'')]\<rparr>) sample_store) =
     sample_store"
  by (simp add: handler_defs sample_defs)

section \<open>The ownership check of \<^verbatim>\<open>DELETE /assignments/:id\<close>\<close>

lemma matches_id: "matches e [(''_id'', JOid h)] d \<longleftrightarrow> get_field d ''_id'' = JOid h"
  by (simp add: matches_def)

lemma strict_eq_eq: "strict_eq a b \<Longrightarrow> a = b"
  by (cases a) auto

lemma matches_id_fun: "matches e [(''_id'', JOid h)] = (\<lambda>d. get_field d ''_id'' = JOid h)"
  by (rule ext) (simp add: matches_id)

text \<open>
  C7 (as amended). For every \<^verbatim>\<open>DELETE /assignments/:id\<close> request the assignments
  change only if the id parses, a document with that id exists and its
  \<^verbatim>\<open>creator?.email\<close> equals the \<^verbatim>\<open>email\<close> query parameter, and then exactly that
  document is removed. For a request that passed \<^verbatim>\<open>verifyToken\<close>, whose id parses
  as an ObjectId and whose \<^verbatim>\<open>findOne\<close> returns: when no document has the id the
  route answers 404, when the creator's email differs from the parameter it answers
  403, and in both cases the store is unchanged.
\<close>

theorem delete_assignment_guard:
  assumes "route_of (verb req) (path req) = Some (DeleteAssignment, i)"
  shows "(assignments (store_after (handle e req s)) \<noteq> assignments s \<longrightarrow>
            (\<exists>h d. objectId e i = Inr h \<and>
                   List.find (\<lambda>d. get_field d ''_id'' = JOid h) (assignments s) = Some d \<and>
                   opt_member (get_field d ''creator'') ''email'' = get_field (query req) ''email'' \<and>
                   assignments (store_after (handle e req s)) =
                     remove_first (\<lambda>d. get_field d ''_id'' = JOid h) (assignments s))) \<and>
         (bearer_ok (authorization req) \<and> verifyIdToken e (token_of (authorization req)) \<and>
          objectId e i = Inr h \<and> db_throw e (FindOne Assignments [(''_id'', JOid h)]) = None \<longrightarrow>
            (List.find (\<lambda>d. get_field d ''_id'' = JOid h) (assignments s) = None \<longrightarrow>
               response (handle e req s) =
                 Sent 404 (JObj [(''success'', JBool False),
                                 (''message'', JStr ''Assignment not found'')]) \<and>
               store_after (handle e req s) = s) \<and>
            (\<forall>d. List.find (\<lambda>d. get_field d ''_id'' = JOid h) (assignments s) = Some d \<and>
                 opt_member (get_field d ''creator'') ''email'' \<noteq> get_field (query req) ''email'' \<longrightarrow>
               response (handle e req s) =
                 Sent 403 (JObj [(''success'', JBool False),
                    (''message'', JStr ''You are not authorized to delete this assignment.'')]) \<and>
               store_after (handle e req s) = s))"
proof -
  have h: "handle e req s = verifyToken (delete_assignment i) e req (s, [])"
    using assms by (simp add: handle_at)
  show ?thesis
    unfolding h
    by (auto simp: verifyToken_def delete_assignment_def findOne_def deleteOne_def logged_def
          store_after_def response_def not_found_def Let_def matches_id_fun
        split: option.splits sum.splits dest: strict_eq_eq)
qed

theorem delete_assignment_guard_witness:
  "route_of (verb ((signed DELETE [''assignments'', ''aaaaaaaaaaaaaaaaaaaaaaaa''])
                     \<lparr>query := [(''email'', JStr ''eve@example.com'')]\<rparr>))
            (path ((signed DELETE [''assignments'', ''aaaaaaaaaaaaaaaaaaaaaaaa''])
                     \<lparr>query := [(''email'', JStr ''eve@example.com'')]\<rparr>)) =
     Some (DeleteAssignment, ''aaaaaaaaaaaaaaaaaaaaaaaa'') \<and>
   List.find (\<lambda>d. get_field d ''_id'' = JOid ''aaaaaaaaaaaaaaaaaaaaaaaa'') (assignments sample_store) =
     Some essay \<and>
   opt_member (get_field essay ''creator'') ''email'' \<noteq> JStr ''eve@example.com'' \<and>
   response (handle sample_env ((signed DELETE [''assignments'', ''aaaaaaaaaaaaaaaaaaaaaaaa''])
                     \<lparr>query := [(''email'', JStr ''eve@example.com'')]\<rparr>) sample_store) =
     Sent 403 (JObj [(''success'', JBool False),
                     (''message'', JStr ''You are not authorized to delete this assignment.'')]) \<and>
   store_after (handle sample_env ((signed DELETE [''assignments'', ''aaaaaaaaaaaaaaaaaaaaaaaa''])
                     \<lparr>query := [(''email'', JStr ''eve@example.com'')]\<rparr>) sample_store) =
     sample_store"
proof -
  let ?req = "(signed DELETE [''assignments'', ''aaaaaaaaaaaaaaaaaaaaaaaa''])
                     \<lparr>query := [(''email'', JStr ''eve@example.com'')]\<rparr>"
  have a: "route_of (verb ?req) (path ?req) = Some (DeleteAssignment, ''aaaaaaaaaaaaaaaaaaaaaaaa'')"
    by (simp add: route_of.simps signed_def bare_def)
  have b: "bearer_ok (authorization ?req)"
    by (simp add: bearer_ok_def startsWith_def signed_def bare_def)
  have c: "verifyIdToken sample_env (token_of (authorization ?req))"
    by (simp add: sample_env_def token_of_def index_opt_def signed_def bare_def)
  have d: "objectId sample_env ''aaaaaaaaaaaaaaaaaaaaaaaa'' = Inr ''aaaaaaaaaaaaaaaaaaaaaaaa''"
    by (simp add: sample_env_def hex24_def)
  have f: "db_throw sample_env (FindOne Assignments [(''_id'', JOid ''aaaaaaaaaaaaaaaaaaaaaaaa'')]) = None"
    by (simp add: sample_env_def)
  have g: "List.find (\<lambda>d. get_field d ''_id'' = JOid ''aaaaaaaaaaaaaaaaaaaaaaaa'')
             (assignments sample_store) = Some essay"
    by (simp add: sample_store_def essay_def get_field_def)
  have k: "opt_member (get_field essay ''creator'') ''email'' \<noteq> get_field (query ?req) ''email''"
    by (simp add: essay_def get_field_def signed_def bare_def)
  have k': "opt_member (get_field essay ''creator'') ''email'' \<noteq> JStr ''eve@example.com''"
    by (simp add: essay_def get_field_def)
  from delete_assignment_guard [OF a, of sample_env sample_store "''aaaaaaaaaaaaaaaaaaaaaaaa''"]
    b c d f g k
  have "response (handle sample_env ?req sample_store) =
     Sent 403 (JObj [(''success'', JBool False),
                     (''message'', JStr ''You are not authorized to delete this assignment.'')]) \<and>
     store_after (handle sample_env ?req sample_store) = sample_store"
    by blast
  with a g k' show ?thesis by blast
qed

text \<open>
  C7 as stated fails: for an id that is not an ObjectId, as \<^verbatim>\<open>xyz\<close>, no document
  has the id and the route answers 500 with the constructor's message, not 404.
\<close>

theorem malformed_id_not_404:
  "list_all (\<lambda>d. get_field d ''_id'' \<noteq> JOid ''xyz'') (assignments sample_store) \<and>
   response (handle sample_env ((signed DELETE [''assignments'', ''xyz''])
                     \<lparr>query := [(''email'', JStr ''ann@example.com'')]\<rparr>) sample_store) =
     Sent 500 (JObj [(''success'', JBool False), (''message'',
       JStr ''input must be a 24 character hex string, 12 byte Uint8Array, or an integer'')])"
  by (simp add: handler_defs sample_defs)

section \<open>The frame of \<^verbatim>\<open>PUT /assignments/:id\<close>\<close>

lemma find_update_first:
  "List.find P xs = Some d \<Longrightarrow>
     \<exists>k<length xs. xs ! k = d \<and> P d \<and> update_first P f xs = xs[k := f d]"
proof (induction xs)
  case Nil
  then show ?case by simp
next
  case (Cons x xs)
  show ?case
  proof (cases "P x")
    case True
    then have "x = d" using Cons.prems by simp
    then show ?thesis using True by (intro exI [of _ 0]) simp
  next
    case False
    then have "List.find P xs = Some d" using Cons.prems by simp
    then obtain k where "k < length xs" "xs ! k = d" "P d" "update_first P f xs = xs[k := f d]"
      using Cons.IH by blast
    then show ?thesis using False by (intro exI [of _ "Suc k"]) simp
  qed
qed

lemma member_opt: "member b k = Inr v \<Longrightarrow> v = opt_member b k"
  by (cases b) auto

lemma put_fields_set:
  assumes "put_fields b = Inr fs"
  shows "get_field (apply_set fs d) key =
     (if key \<in> {''title'', ''description'', ''marks'', ''thumbnail'', ''difficulty'', ''dueDate''}
      then nullify (opt_member b key) else get_field d key)"
proof -
  obtain t where t: "member b ''title'' = Inr t"
    and fs: "fs = [(''title'', t), (''description'', opt_member b ''description''),
               (''marks'', opt_member b ''marks''), (''thumbnail'', opt_member b ''thumbnail''),
               (''difficulty'', opt_member b ''difficulty''), (''dueDate'', opt_member b ''dueDate'')]"
    using assms by (auto simp: put_fields_def split: sum.splits)
  have "t = opt_member b ''title''" using t by (rule member_opt)
  then show ?thesis
    unfolding fs by (simp add: apply_set_def bson_def get_field_set_field nullify_def)
qed

text \<open>
  C8. For every \<^verbatim>\<open>PUT /assignments/:id\<close> request that reports success (status
  200), the store afterwards is the store before with one assignment replaced, the
  one with the id of the request; in that document each of \<^verbatim>\<open>title\<close>,
  \<^verbatim>\<open>description\<close>, \<^verbatim>\<open>marks\<close>, \<^verbatim>\<open>thumbnail\<close>, \<^verbatim>\<open>difficulty\<close> and
  \<^verbatim>\<open>dueDate\<close> has the value of the request body (null when the body has none) and
  every other field has the value it had. Every other assignment and the other two
  collections are unchanged.
\<close>

theorem put_assignment_frame:
  assumes "route_of (verb req) (path req) = Some (PutAssignment, i)"
      and "response (handle e req s) = Sent 200 b"
  shows "\<exists>h k. objectId e i = Inr h \<and> k < length (assignments s) \<and>
           get_field (assignments s ! k) ''_id'' = JOid h \<and>
           store_after (handle e req s) =
             s\<lparr>assignments := (assignments s)[k := assignments (store_after (handle e req s)) ! k]\<rparr> \<and>
           (\<forall>key \<in> {''title'', ''description'', ''marks'', ''thumbnail'', ''difficulty'', ''dueDate''}.
              get_field (assignments (store_after (handle e req s)) ! k) key =
                nullify (opt_member (body req) key)) \<and>
           (\<forall>key. key \<notin> {''title'', ''description'', ''marks'', ''thumbnail'', ''difficulty'',
                           ''dueDate''} \<longrightarrow>
              get_field (assignments (store_after (handle e req s)) ! k) key =
                get_field (assignments s ! k) key)"
proof -
  have hd: "handle e req s = verifyToken (put_assignment i) e req (s, [])"
    using assms(1) by (simp add: handle_at)
  have ok: "fst (put_assignment i e req (s, [])) = Sent 200 b"
       and same: "handle e req s = put_assignment i e req (s, [])"
    using assms(2) unfolding hd response_def
    by (auto simp: verifyToken_def split: if_splits)
  obtain h where h: "objectId e i = Inr h"
    using ok by (auto simp: put_assignment_def fail500_def split: sum.splits)
  obtain fs where fs: "put_fields (body req) = Inr fs"
    using ok h by (auto simp: put_assignment_def fail500_def split: sum.splits)
  let ?P = "\<lambda>d. get_field d ''_id'' = JOid h"
  have upd: "\<exists>d. List.find ?P (assignments s) = Some d \<and>
             store_after (handle e req s) =
               s\<lparr>assignments := update_first ?P (apply_set fs) (assignments s)\<rparr>"
    using ok unfolding same store_after_def
    by (auto simp: put_assignment_def h fs updateOne_def logged_def Let_def fail500_def ok_def
          matches_id_fun split: option.splits if_splits)
  then obtain d where d: "List.find ?P (assignments s) = Some d"
    and st: "store_after (handle e req s) =
               s\<lparr>assignments := update_first ?P (apply_set fs) (assignments s)\<rparr>"
    by blast
  obtain k where k: "k < length (assignments s)" "assignments s ! k = d" "?P d"
    and u: "update_first ?P (apply_set fs) (assignments s) = (assignments s)[k := apply_set fs d]"
    using find_update_first [OF d, of "apply_set fs"] by blast
  have new: "assignments (store_after (handle e req s)) ! k = apply_set fs d"
    using st u k(1) by simp
  show ?thesis
  proof (intro exI [of _ h] exI [of _ k] conjI)
    show "objectId e i = Inr h" by (rule h)
    show "k < length (assignments s)" by (rule k(1))
    show "get_field (assignments s ! k) ''_id'' = JOid h" using k by simp
    show "store_after (handle e req s) =
            s\<lparr>assignments := (assignments s)[k := assignments (store_after (handle e req s)) ! k]\<rparr>"
      unfolding new using st u by simp
    show "\<forall>key \<in> {''title'', ''description'', ''marks'', ''thumbnail'', ''difficulty'', ''dueDate''}.
              get_field (assignments (store_after (handle e req s)) ! k) key =
                nullify (opt_member (body req) key)"
      unfolding new using put_fields_set [OF fs, of d] by simp
    show "\<forall>key. key \<notin> {''title'', ''description'', ''marks'', ''thumbnail'', ''difficulty'',
                           ''dueDate''} \<longrightarrow>
              get_field (assignments (store_after (handle e req s)) ! k) key =
                get_field (assignments s ! k) key"
      unfolding new using put_fields_set [OF fs, of d] k(2) by simp
  qed
qed

theorem put_assignment_frame_witness:
  "route_of (verb ((signed PUT [''assignments'', ''aaaaaaaaaaaaaaaaaaaaaaaa''])
                     \<lparr>body := JObj [(''title'', JStr ''Report'')]\<rparr>))
            (path ((signed PUT [''assignments'', ''aaaaaaaaaaaaaaaaaaaaaaaa''])
                     \<lparr>body := JObj [(''title'', JStr ''Report'')]\<rparr>)) =
     Some (PutAssignment, ''aaaaaaaaaaaaaaaaaaaaaaaa'') \<and>
   response (handle sample_env ((signed PUT [''assignments'', ''aaaaaaaaaaaaaaaaaaaaaaaa''])
                     \<lparr>body := JObj [(''title'', JStr ''Report'')]\<rparr>) sample_store) =
     Sent 200 (JObj [(''success'', JBool True),
                     (''message'', JStr ''Assignment updated successfully'')]) \<and>
   (\<exists>k < length (assignments sample_store).
      get_field (assignments (store_after (handle sample_env
          ((signed PUT [''assignments'', ''aaaaaaaaaaaaaaaaaaaaaaaa''])
             \<lparr>body := JObj [(''title'', JStr ''Report'')]\<rparr>) sample_store)) ! k) ''creator'' =
        get_field (assignments sample_store ! k) ''creator'' \<and>
      get_field (assignments (store_after (handle sample_env
          ((signed PUT [''assignments'', ''aaaaaaaaaaaaaaaaaaaaaaaa''])
             \<lparr>body := JObj [(''title'', JStr ''Report'')]\<rparr>) sample_store)) ! k) ''title'' =
        nullify (opt_member (body ((signed PUT [''assignments'', ''aaaaaaaaaaaaaaaaaaaaaaaa''])
             \<lparr>body := JObj [(''title'', JStr ''Report'')]\<rparr>)) ''title''))"
proof -
  let ?req = "(signed PUT [''assignments'', ''aaaaaaaaaaaaaaaaaaaaaaaa''])
                \<lparr>body := JObj [(''title'', JStr ''Report'')]\<rparr>"
  have a: "route_of (verb ?req) (path ?req) = Some (PutAssignment, ''aaaaaaaaaaaaaaaaaaaaaaaa'')"
    by (simp add: route_of.simps signed_def bare_def)
  have b: "response (handle sample_env ?req sample_store) =
     Sent 200 (JObj [(''success'', JBool True),
                     (''message'', JStr ''Assignment updated successfully'')])"
    by (simp add: handler_defs sample_defs)
  from put_assignment_frame [OF a b] obtain h k where
    k: "k < length (assignments sample_store)" and
    t: "\<forall>key \<in> {''title'', ''description'', ''marks'', ''thumbnail'', ''difficulty'', ''dueDate''}.
          get_field (assignments (store_after (handle sample_env ?req sample_store)) ! k) key =
            nullify (opt_member (body ?req) key)" and
    o: "\<forall>key. key \<notin> {''title'', ''description'', ''marks'', ''thumbnail'', ''difficulty'',
                      ''dueDate''} \<longrightarrow>
          get_field (assignments (store_after (handle sample_env ?req sample_store)) ! k) key =
            get_field (assignments sample_store ! k) key"
    by (elim exE conjE)
  have t': "get_field (assignments (store_after (handle sample_env ?req sample_store)) ! k) ''title'' =
              nullify (opt_member (body ?req) ''title'')"
    using t by (rule bspec) simp
  have c: "''creator'' \<notin> {''title'', ''description'', ''marks'', ''thumbnail'', ''difficulty'',
                            ''dueDate''}"
    by simp
  have o': "get_field (assignments (store_after (handle sample_env ?req sample_store)) ! k)
              ''creator'' = get_field (assignments sample_store ! k) ''creator''"
    using o [rule_format, OF c] .
  from k o' t' have "\<exists>k < length (assignments sample_store).
      get_field (assignments (store_after (handle sample_env ?req sample_store)) ! k) ''creator'' =
        get_field (assignments sample_store ! k) ''creator'' \<and>
      get_field (assignments (store_after (handle sample_env ?req sample_store)) ! k) ''title'' =
        nullify (opt_member (body ?req) ''title'')"
    by (intro exI [of _ k] conjI)
  with a b show ?thesis
    by (intro conjI)
qed

section \<open>The status of submissions\<close>

lemma insertOne_store:
  "insertOne e c v (s, tr) = (r, s', tr') \<Longrightarrow>
     s' = s \<or> (\<exists>d. s' = put_coll c (get_coll c s @ [bson d]) s \<and>
                  (d = spread v \<or> d = set_field ''_id'' (JOid (createPk e)) (spread v)))"
  by (auto simp: insertOne_def Let_def logged_def split: option.splits if_splits)

lemma updateOne_store:
  "updateOne e c f fs (s, tr) = (r, s', tr') \<Longrightarrow>
     s' = s \<or> s' = put_coll c (update_first (matches e f) (apply_set fs) (get_coll c s)) s"
  by (auto simp: updateOne_def Let_def logged_def split: option.splits if_splits)

lemma deleteOne_store:
  "deleteOne e c f (s, tr) = (r, s', tr') \<Longrightarrow>
     s' = s \<or> s' = put_coll c (remove_first (matches e f) (get_coll c s)) s"
  by (simp add: deleteOne_def Let_def logged_def split: option.splits)

lemmas store_dest = insertOne_store updateOne_store deleteOne_store
  find_all_st find_cursor_st aggregate_st findOne_st

lemma set_update_first: "set (update_first P f xs) \<subseteq> set xs \<union> f ` set xs"
  by (induction xs) auto

lemma get_field_bson: "get_field d k \<noteq> JUndef \<Longrightarrow> get_field (bson d) k = get_field d k"
  by (induction d) (auto simp: bson_def get_field_def nullify_def)

lemma marking_set:
  "get_field (apply_set (marking_fields e om fb) d) ''status'' = JStr ''completed'' \<and>
   get_field (apply_set (marking_fields e om fb) d) ''markedAt'' = JDate (now e)"
  by (simp add: apply_set_def marking_fields_def bson_def nullify_def get_field_set_field)

lemma submission_doc_fields:
  "get_field (submission_doc e data) ''status'' = JStr ''pending'' \<and>
   get_field (submission_doc e data) ''submittedAt'' = JDate (now e)"
  by (simp add: submission_doc_def get_field_set_field)

lemma verifyToken_store:
  "fst (snd (verifyToken h e req (s, []))) = s \<or>
   fst (snd (verifyToken h e req (s, []))) = fst (snd (h e req (s, [])))"
  by (simp add: verifyToken_def)

lemma post_submitted_store:
  "submittedAssignments (fst (snd (post_submitted e req (s, [])))) = submittedAssignments s \<or>
   (\<exists>d. submittedAssignments (fst (snd (post_submitted e req (s, [])))) =
          submittedAssignments s @ [d] \<and> fresh_submission e d)"
  using submission_doc_fields [of e "body req"]
  by (auto simp: post_submitted_def fresh_submission_def get_field_bson get_field_set_field
        nullify_def split: sum.splits prod.splits dest!: insertOne_store)

lemma patch_submitted_store:
  "submittedAssignments (fst (snd (patch_submitted i e req (s, [])))) = submittedAssignments s \<or>
   (\<exists>P om fb. submittedAssignments (fst (snd (patch_submitted i e req (s, [])))) =
          update_first P (apply_set (marking_fields e om fb)) (submittedAssignments s))"
proof (cases "member (body req) ''obtainedMarks''")
  case (Inl err)
  then show ?thesis by (simp add: patch_submitted_def)
next
  case (Inr om)
  show ?thesis
  proof (cases "objectId e i")
    case (Inl m)
    then show ?thesis using Inr by (simp add: patch_submitted_def)
  next
    case (Inr h)
    let ?fs = "marking_fields e om (opt_member (body req) ''feedback'')"
    obtain r s' tr' where u:
      "updateOne e SubmittedAssignments [(''_id'', JOid h)] ?fs (s, []) = (r, s', tr')"
      by (cases "updateOne e SubmittedAssignments [(''_id'', JOid h)] ?fs (s, [])") auto
    have st: "fst (snd (patch_submitted i e req (s, []))) = s'"
      using u Inr \<open>member (body req) ''obtainedMarks'' = Inr om\<close>
      by (auto simp: patch_submitted_def Let_def split: sum.splits)
    from updateOne_store [OF u] show ?thesis
      unfolding st by fastforce
  qed
qed

lemma other_handlers_store:
  assumes "ep \<noteq> PostSubmitted" "ep \<noteq> PatchSubmitted"
  shows "submittedAssignments (fst (snd (handler_of ep i e req (s, [])))) = submittedAssignments s"
proof (cases ep)
  case Root
  then show ?thesis by (simp add: root_def)
next
  case PostReviews
  then show ?thesis
    by (auto simp: post_reviews_def Let_def split: sum.splits prod.splits dest!: store_dest)
next
  case GetReviews
  then show ?thesis
    by (auto simp: get_reviews_def Let_def split: sum.splits prod.splits dest!: store_dest)
next
  case PostAssignments
  have "submittedAssignments (fst (snd (post_assignments e req (s, [])))) = submittedAssignments s"
    by (auto simp: post_assignments_def split: sum.splits prod.splits dest!: store_dest)
  then show ?thesis
    using PostAssignments verifyToken_store [of post_assignments e req s] by auto
next
  case GetAssignments
  then show ?thesis
    by (auto simp: get_assignments_def split: sum.splits prod.splits dest!: store_dest)
next
  case GetAssignment
  then show ?thesis
    by (auto simp: get_assignment_def split: sum.splits prod.splits option.splits dest!: store_dest)
next
  case GetLeaderboard
  then show ?thesis
    by (auto simp: get_leaderboard_def Let_def split: sum.splits prod.splits dest!: store_dest)
next
  case PutAssignment
  have "submittedAssignments (fst (snd (put_assignment i e req (s, [])))) = submittedAssignments s"
    by (auto simp: put_assignment_def split: sum.splits prod.splits dest!: store_dest)
  then show ?thesis
    using PutAssignment verifyToken_store [of "put_assignment i" e req s] by auto
next
  case DeleteAssignment
  have "submittedAssignments (fst (snd (delete_assignment i e req (s, [])))) = submittedAssignments s"
    by (auto simp: delete_assignment_def Let_def split: sum.splits prod.splits option.splits
          dest!: store_dest)
  then show ?thesis
    using DeleteAssignment verifyToken_store [of "delete_assignment i" e req s] by auto
next
  case GetSubmitted
  have "submittedAssignments (fst (snd (get_submitted e req (s, [])))) = submittedAssignments s"
    by (auto simp: get_submitted_def Let_def split: sum.splits prod.splits dest!: store_dest)
  then show ?thesis
    using GetSubmitted verifyToken_store [of get_submitted e req s] by auto
next
  case PostSubmitted
  then show ?thesis using assms by simp
next
  case PatchSubmitted
  then show ?thesis using assms by simp
next
  case GetPendingSubmitted
  have "submittedAssignments (fst (snd (get_pending_submitted e req (s, [])))) =
          submittedAssignments s"
    by (auto simp: get_pending_submitted_def Let_def split: sum.splits prod.splits dest!: store_dest)
  then show ?thesis
    using GetPendingSubmitted verifyToken_store [of get_pending_submitted e req s] by auto
qed

lemma handler_submissions:
  "d \<in> set (submittedAssignments (fst (snd (handler_of ep i e req (s, []))))) \<Longrightarrow>
     d \<in> set (submittedAssignments s) \<or> fresh_submission e d \<or> marked_submission e d"
proof (cases "ep = PostSubmitted \<or> ep = PatchSubmitted")
  case False
  assume "d \<in> set (submittedAssignments (fst (snd (handler_of ep i e req (s, [])))))"
  then show ?thesis using other_handlers_store [of ep i e req s] False by simp
next
  case True
  assume m: "d \<in> set (submittedAssignments (fst (snd (handler_of ep i e req (s, [])))))"
  from True show ?thesis
  proof
    assume ep: "ep = PostSubmitted"
    show ?thesis
      using m post_submitted_store [of e req s] verifyToken_store [of post_submitted e req s]
      unfolding ep by auto
  next
    assume ep: "ep = PatchSubmitted"
    have "d \<in> set (submittedAssignments (fst (snd (patch_submitted i e req (s, []))))) \<Longrightarrow>
            d \<in> set (submittedAssignments s) \<or> marked_submission e d"
      using patch_submitted_store [of i e req s] set_update_first marking_set
      by (fastforce simp: marked_submission_def)
    then show ?thesis
      using m verifyToken_store [of "patch_submitted i" e req s]
      unfolding ep by auto
  qed
qed

lemmas route_defs = root_def post_reviews_def get_reviews_def post_assignments_def
  get_assignments_def get_assignment_def get_leaderboard_def put_assignment_def
  delete_assignment_def get_submitted_def post_submitted_def patch_submitted_def
  get_pending_submitted_def verifyToken_def

lemma submission_inserts:
  "InsertOne SubmittedAssignments v \<in> set (snd (snd (handler_of ep i e req (s, [])))) \<Longrightarrow>
     v = JObj (submission_doc e (body req))"
  by (cases ep)
     (auto simp: route_defs Let_def split: sum.splits prod.splits option.splits if_splits
        dest!: log_dest)

lemma submission_updates:
  "UpdateOne SubmittedAssignments f fs \<in> set (snd (snd (handler_of ep i e req (s, [])))) \<Longrightarrow>
     get_field fs ''status'' = JStr ''completed'' \<and> get_field fs ''markedAt'' = JDate (now e)"
  by (cases ep)
     (auto simp: route_defs Let_def marking_fields_def get_field_def
        split: sum.splits prod.splits option.splits if_splits dest!: log_dest)

lemma submission_conditional:
  "(\<forall>d \<in> set (submittedAssignments (store_after (handle e req s))).
      d \<in> set (submittedAssignments s) \<or>
      (get_field d ''status'' = JStr ''pending'' \<and> get_field d ''submittedAt'' = JDate (now e)) \<or>
      (get_field d ''status'' = JStr ''completed'' \<and> get_field d ''markedAt'' = JDate (now e))) \<and>
   ((\<forall>d \<in> set (submittedAssignments s).
       get_field d ''status'' = JStr ''pending'' \<or> get_field d ''status'' = JStr ''completed'') \<longrightarrow>
    (\<forall>d \<in> set (submittedAssignments (store_after (handle e req s))).
       get_field d ''status'' = JStr ''pending'' \<or> get_field d ''status'' = JStr ''completed'')) \<and>
   (\<forall>v. InsertOne SubmittedAssignments v \<in> set (calls (handle e req s)) \<longrightarrow>
      (\<exists>fs. v = JObj fs \<and> get_field fs ''status'' = JStr ''pending'' \<and>
            get_field fs ''submittedAt'' = JDate (now e))) \<and>
   (\<forall>f fs. UpdateOne SubmittedAssignments f fs \<in> set (calls (handle e req s)) \<longrightarrow>
      get_field fs ''status'' = JStr ''completed'' \<and> get_field fs ''markedAt'' = JDate (now e))"
proof (cases "route_of (verb req) (path req)")
  case None
  then show ?thesis by (simp add: handle_def store_after_def calls_def)
next
  case (Some r)
  obtain ep i where r: "r = (ep, i)" by (cases r)
  have h: "handle e req s = handler_of ep i e req (s, [])"
    using Some r by (simp add: handle_at)
  have a: "\<forall>d \<in> set (submittedAssignments (store_after (handle e req s))).
      d \<in> set (submittedAssignments s) \<or>
      (get_field d ''status'' = JStr ''pending'' \<and> get_field d ''submittedAt'' = JDate (now e)) \<or>
      (get_field d ''status'' = JStr ''completed'' \<and> get_field d ''markedAt'' = JDate (now e))"
    unfolding h store_after_def
    using handler_submissions [of _ ep i e req s]
    by (auto simp: fresh_submission_def marked_submission_def)
  have b: "(\<forall>d \<in> set (submittedAssignments s).
       get_field d ''status'' = JStr ''pending'' \<or> get_field d ''status'' = JStr ''completed'') \<longrightarrow>
    (\<forall>d \<in> set (submittedAssignments (store_after (handle e req s))).
       get_field d ''status'' = JStr ''pending'' \<or> get_field d ''status'' = JStr ''completed'')"
    using a by blast
  have c: "\<forall>v. InsertOne SubmittedAssignments v \<in> set (calls (handle e req s)) \<longrightarrow>
      (\<exists>fs. v = JObj fs \<and> get_field fs ''status'' = JStr ''pending'' \<and>
            get_field fs ''submittedAt'' = JDate (now e))"
    unfolding h calls_def
    using submission_inserts [of _ ep i e req s] submission_doc_fields [of e "body req"]
    by blast
  have d: "\<forall>f fs. UpdateOne SubmittedAssignments f fs \<in> set (calls (handle e req s)) \<longrightarrow>
      get_field fs ''status'' = JStr ''completed'' \<and> get_field fs ''markedAt'' = JDate (now e)"
  proof (intro allI impI)
    fix f fs
    assume "UpdateOne SubmittedAssignments f fs \<in> set (calls (handle e req s))"
    then show "get_field fs ''status'' = JStr ''completed'' \<and>
               get_field fs ''markedAt'' = JDate (now e)"
      unfolding h calls_def by (rule submission_updates)
  qed
  from a b c d show ?thesis by blast
qed

lemma verifyToken_pass: "verified e req \<Longrightarrow> verifyToken h e req st = h e req st"
  by (simp add: verifyToken_def verified_def)

lemma post_submitted_inserts:
  assumes d: "d = bson (if get_field (submission_doc e (body req)) ''_id'' = JUndef \<or>
                         get_field (submission_doc e (body req)) ''_id'' = JNull
                      then set_field ''_id'' (JOid (createPk e)) (submission_doc e (body req))
                      else submission_doc e (body req))"
      and t: "db_throw e (InsertOne SubmittedAssignments (JObj (submission_doc e (body req)))) = None"
      and n: "get_field d ''_id'' \<notin> set (map (\<lambda>x. get_field x ''_id'') (submittedAssignments s))"
  shows "post_submitted e req (s, []) =
           (Sent 200 (JObj [(''success'', JBool True), (''insertedId'', get_field d ''_id'')]),
            s\<lparr>submittedAssignments := submittedAssignments s @ [d]\<rparr>,
            [InsertOne SubmittedAssignments (JObj (submission_doc e (body req)))])"
    and "get_field d ''status'' = JStr ''pending''"
    and "get_field d ''submittedAt'' = JDate (now e)"
proof -
  show "post_submitted e req (s, []) =
           (Sent 200 (JObj [(''success'', JBool True), (''insertedId'', get_field d ''_id'')]),
            s\<lparr>submittedAssignments := submittedAssignments s @ [d]\<rparr>,
            [InsertOne SubmittedAssignments (JObj (submission_doc e (body req)))])"
    using t n unfolding d
    by (simp add: post_submitted_def insertOne_def logged_def Let_def ok_def)
  have "get_field (submission_doc e (body req)) ''status'' = JStr ''pending''"
       "get_field (submission_doc e (body req)) ''submittedAt'' = JDate (now e)"
    using submission_doc_fields [of e "body req"] by simp_all
  then show "get_field d ''status'' = JStr ''pending''"
        and "get_field d ''submittedAt'' = JDate (now e)"
    unfolding d by (simp_all add: get_field_bson get_field_set_field)
qed

lemma marking_set_all:
  "get_field (apply_set (marking_fields e om fb) d) key =
     (if key = ''obtainedMarks'' then nullify om
      else if key = ''feedback'' then nullify fb
      else if key = ''status'' then JStr ''completed''
      else if key = ''markedAt'' then JDate (now e)
      else get_field d key)"
  by (simp add: apply_set_def marking_fields_def bson_def nullify_def get_field_set_field)

lemma patch_submitted_marks:
  assumes b: "body req \<noteq> JUndef" "body req \<noteq> JNull"
      and h: "objectId e i = Inr h"
      and t: "db_throw e (UpdateOne SubmittedAssignments [(''_id'', JOid h)]
                (marking_fields e (opt_member (body req) ''obtainedMarks'')
                   (opt_member (body req) ''feedback''))) = None"
      and f: "List.find (\<lambda>d. get_field d ''_id'' = JOid h) (submittedAssignments s) = Some d"
  shows "\<exists>k < length (submittedAssignments s). submittedAssignments s ! k = d \<and>
           fst (snd (patch_submitted i e req (s, []))) =
             s\<lparr>submittedAssignments := (submittedAssignments s)
                  [k := apply_set (marking_fields e (opt_member (body req) ''obtainedMarks'')
                                     (opt_member (body req) ''feedback'')) d]\<rparr> \<and>
           (\<exists>n. fst (patch_submitted i e req (s, [])) =
                  Sent 200 (JObj [(''success'', JBool True), (''modifiedCount'', JNum n)]))"
proof -
  let ?fs = "marking_fields e (opt_member (body req) ''obtainedMarks'')
               (opt_member (body req) ''feedback'')"
  let ?P = "\<lambda>d. get_field d ''_id'' = JOid h"
  obtain om where om: "member (body req) ''obtainedMarks'' = Inr om"
    using b by (cases "body req") auto
  then have om': "om = opt_member (body req) ''obtainedMarks''"
    by (rule member_opt)
  obtain k where k: "k < length (submittedAssignments s)" "submittedAssignments s ! k = d"
    and u: "update_first ?P (apply_set ?fs) (submittedAssignments s) =
              (submittedAssignments s)[k := apply_set ?fs d]"
    using find_update_first [OF f, of "apply_set ?fs"] by blast
  have same: "apply_set ?fs d = d \<Longrightarrow>
                s\<lparr>submittedAssignments := (submittedAssignments s)[k := apply_set ?fs d]\<rparr> = s"
  proof -
    assume a: "apply_set ?fs d = d"
    have "(submittedAssignments s)[k := d] = submittedAssignments s"
      using k(2) by (metis list_update_id)
    then show ?thesis unfolding a by simp
  qed
  have "fst (snd (patch_submitted i e req (s, []))) =
          s\<lparr>submittedAssignments := (submittedAssignments s)[k := apply_set ?fs d]\<rparr> \<and>
        (\<exists>n. fst (patch_submitted i e req (s, [])) =
                  Sent 200 (JObj [(''success'', JBool True), (''modifiedCount'', JNum n)]))"
    using t f u same
    by (simp add: patch_submitted_def om om' [symmetric] h updateOne_def logged_def Let_def
          matches_id_fun ok_def)
  with k show ?thesis by blast
qed

text \<open>
  C9. Whatever the request, every document of the submitted assignments afterwards
  that was not there before, created or modified, has status \<^verbatim>\<open>pending\<close> with
  the submission time or status \<^verbatim>\<open>completed\<close> with the marking time; so when
  every submission has status \<^verbatim>\<open>pending\<close> or \<^verbatim>\<open>completed\<close> before a request,
  every submission has one of them after it. Every insert into the collection carries
  status \<^verbatim>\<open>pending\<close> and \<^verbatim>\<open>submittedAt\<close>, whatever the body holds, and every
  update of it sets status \<^verbatim>\<open>completed\<close> and \<^verbatim>\<open>markedAt\<close>. And the routes do
  write: a verified \<^verbatim>\<open>POST /submitted-assignments\<close> whose insert returns (the
  call does not reject, the id is new) answers 200 and appends exactly one document,
  the body's fields with status \<^verbatim>\<open>pending\<close> over any status of the body and
  \<^verbatim>\<open>submittedAt\<close>; a verified \<^verbatim>\<open>PATCH /submitted-assignments/:id\<close> with a body,
  a well-formed id of an existing submission and an update that returns answers 200
  and leaves that submission, and no other, with status \<^verbatim>\<open>completed\<close>,
  \<^verbatim>\<open>markedAt\<close>, and the body's \<^verbatim>\<open>obtainedMarks\<close> and \<^verbatim>\<open>feedback\<close>, its
  other fields as they were.
\<close>

theorem submission_status_invariant:
  "(\<forall>d \<in> set (submittedAssignments (store_after (handle e req s))).
      d \<in> set (submittedAssignments s) \<or>
      (get_field d ''status'' = JStr ''pending'' \<and> get_field d ''submittedAt'' = JDate (now e)) \<or>
      (get_field d ''status'' = JStr ''completed'' \<and> get_field d ''markedAt'' = JDate (now e))) \<and>
   ((\<forall>d \<in> set (submittedAssignments s).
       get_field d ''status'' = JStr ''pending'' \<or> get_field d ''status'' = JStr ''completed'') \<longrightarrow>
    (\<forall>d \<in> set (submittedAssignments (store_after (handle e req s))).
       get_field d ''status'' = JStr ''pending'' \<or> get_field d ''status'' = JStr ''completed'')) \<and>
   (\<forall>v. InsertOne SubmittedAssignments v \<in> set (calls (handle e req s)) \<longrightarrow>
      (\<exists>fs. v = JObj fs \<and> get_field fs ''status'' = JStr ''pending'' \<and>
            get_field fs ''submittedAt'' = JDate (now e))) \<and>
   (\<forall>f fs. UpdateOne SubmittedAssignments f fs \<in> set (calls (handle e req s)) \<longrightarrow>
      get_field fs ''status'' = JStr ''completed'' \<and> get_field fs ''markedAt'' = JDate (now e)) \<and>
   (\<forall>d. endpoint_of req = Some PostSubmitted \<and> verified e req \<and>
        d = bson (if get_field (submission_doc e (body req)) ''_id'' = JUndef \<or>
                     get_field (submission_doc e (body req)) ''_id'' = JNull
                  then set_field ''_id'' (JOid (createPk e)) (submission_doc e (body req))
                  else submission_doc e (body req)) \<and>
        db_throw e (InsertOne SubmittedAssignments (JObj (submission_doc e (body req)))) = None \<and>
        get_field d ''_id'' \<notin> set (map (\<lambda>x. get_field x ''_id'') (submittedAssignments s)) \<longrightarrow>
      response (handle e req s) =
        Sent 200 (JObj [(''success'', JBool True), (''insertedId'', get_field d ''_id'')]) \<and>
      store_after (handle e req s) = s\<lparr>submittedAssignments := submittedAssignments s @ [d]\<rparr> \<and>
      get_field d ''status'' = JStr ''pending'' \<and>
      get_field d ''submittedAt'' = JDate (now e)) \<and>
   (\<forall>i h d. route_of (verb req) (path req) = Some (PatchSubmitted, i) \<and> verified e req \<and>
        body req \<noteq> JUndef \<and> body req \<noteq> JNull \<and> objectId e i = Inr h \<and>
        db_throw e (UpdateOne SubmittedAssignments [(''_id'', JOid h)]
          (marking_fields e (opt_member (body req) ''obtainedMarks'')
             (opt_member (body req) ''feedback''))) = None \<and>
        List.find (\<lambda>d. get_field d ''_id'' = JOid h) (submittedAssignments s) = Some d \<longrightarrow>
      (\<exists>k d'. k < length (submittedAssignments s) \<and> submittedAssignments s ! k = d \<and>
         store_after (handle e req s) =
           s\<lparr>submittedAssignments := (submittedAssignments s)[k := d']\<rparr> \<and>
         get_field d' ''status'' = JStr ''completed'' \<and>
         get_field d' ''markedAt'' = JDate (now e) \<and>
         get_field d' ''obtainedMarks'' = nullify (opt_member (body req) ''obtainedMarks'') \<and>
         get_field d' ''feedback'' = nullify (opt_member (body req) ''feedback'') \<and>
         (\<forall>key. key \<notin> {''obtainedMarks'', ''feedback'', ''status'', ''markedAt''} \<longrightarrow>
            get_field d' key = get_field d key)) \<and>
      (\<exists>n. response (handle e req s) =
         Sent 200 (JObj [(''success'', JBool True), (''modifiedCount'', JNum n)])))"
proof -
  have post: "\<forall>d. endpoint_of req = Some PostSubmitted \<and> verified e req \<and>
        d = bson (if get_field (submission_doc e (body req)) ''_id'' = JUndef \<or>
                     get_field (submission_doc e (body req)) ''_id'' = JNull
                  then set_field ''_id'' (JOid (createPk e)) (submission_doc e (body req))
                  else submission_doc e (body req)) \<and>
        db_throw e (InsertOne SubmittedAssignments (JObj (submission_doc e (body req)))) = None \<and>
        get_field d ''_id'' \<notin> set (map (\<lambda>x. get_field x ''_id'') (submittedAssignments s)) \<longrightarrow>
      response (handle e req s) =
        Sent 200 (JObj [(''success'', JBool True), (''insertedId'', get_field d ''_id'')]) \<and>
      store_after (handle e req s) = s\<lparr>submittedAssignments := submittedAssignments s @ [d]\<rparr> \<and>
      get_field d ''status'' = JStr ''pending'' \<and>
      get_field d ''submittedAt'' = JDate (now e)"
  proof (intro allI impI, elim conjE)
    fix d
    assume ep: "endpoint_of req = Some PostSubmitted" and v: "verified e req"
      and d: "d = bson (if get_field (submission_doc e (body req)) ''_id'' = JUndef \<or>
                     get_field (submission_doc e (body req)) ''_id'' = JNull
                  then set_field ''_id'' (JOid (createPk e)) (submission_doc e (body req))
                  else submission_doc e (body req))"
      and t: "db_throw e (InsertOne SubmittedAssignments (JObj (submission_doc e (body req)))) = None"
      and n: "get_field d ''_id'' \<notin> set (map (\<lambda>x. get_field x ''_id'') (submittedAssignments s))"
    obtain i where r: "route_of (verb req) (path req) = Some (PostSubmitted, i)"
      using endpoint_route [OF ep] by blast
    have hd: "handle e req s = post_submitted e req (s, [])"
      using r v by (simp add: handle_at verifyToken_pass)
    show "response (handle e req s) =
        Sent 200 (JObj [(''success'', JBool True), (''insertedId'', get_field d ''_id'')]) \<and>
      store_after (handle e req s) = s\<lparr>submittedAssignments := submittedAssignments s @ [d]\<rparr> \<and>
      get_field d ''status'' = JStr ''pending'' \<and>
      get_field d ''submittedAt'' = JDate (now e)"
      unfolding hd using post_submitted_inserts [OF d t n]
      by (simp add: response_def store_after_def)
  qed
  have patch: "\<forall>i h d. route_of (verb req) (path req) = Some (PatchSubmitted, i) \<and> verified e req \<and>
        body req \<noteq> JUndef \<and> body req \<noteq> JNull \<and> objectId e i = Inr h \<and>
        db_throw e (UpdateOne SubmittedAssignments [(''_id'', JOid h)]
          (marking_fields e (opt_member (body req) ''obtainedMarks'')
             (opt_member (body req) ''feedback''))) = None \<and>
        List.find (\<lambda>d. get_field d ''_id'' = JOid h) (submittedAssignments s) = Some d \<longrightarrow>
      (\<exists>k d'. k < length (submittedAssignments s) \<and> submittedAssignments s ! k = d \<and>
         store_after (handle e req s) =
           s\<lparr>submittedAssignments := (submittedAssignments s)[k := d']\<rparr> \<and>
         get_field d' ''status'' = JStr ''completed'' \<and>
         get_field d' ''markedAt'' = JDate (now e) \<and>
         get_field d' ''obtainedMarks'' = nullify (opt_member (body req) ''obtainedMarks'') \<and>
         get_field d' ''feedback'' = nullify (opt_member (body req) ''feedback'') \<and>
         (\<forall>key. key \<notin> {''obtainedMarks'', ''feedback'', ''status'', ''markedAt''} \<longrightarrow>
            get_field d' key = get_field d key)) \<and>
      (\<exists>n. response (handle e req s) =
         Sent 200 (JObj [(''success'', JBool True), (''modifiedCount'', JNum n)]))"
  proof (intro allI impI, elim conjE)
    fix i h d
    assume r: "route_of (verb req) (path req) = Some (PatchSubmitted, i)" and v: "verified e req"
      and b: "body req \<noteq> JUndef" "body req \<noteq> JNull" and h: "objectId e i = Inr h"
      and t: "db_throw e (UpdateOne SubmittedAssignments [(''_id'', JOid h)]
          (marking_fields e (opt_member (body req) ''obtainedMarks'')
             (opt_member (body req) ''feedback''))) = None"
      and f: "List.find (\<lambda>d. get_field d ''_id'' = JOid h) (submittedAssignments s) = Some d"
    let ?fs = "marking_fields e (opt_member (body req) ''obtainedMarks'')
                 (opt_member (body req) ''feedback'')"
    have hd: "handle e req s = patch_submitted i e req (s, [])"
      using r v by (simp add: handle_at verifyToken_pass)
    obtain k where k: "k < length (submittedAssignments s)" "submittedAssignments s ! k = d"
      and st: "store_after (handle e req s) =
                 s\<lparr>submittedAssignments := (submittedAssignments s)[k := apply_set ?fs d]\<rparr>"
      and rs: "\<exists>n. response (handle e req s) =
                 Sent 200 (JObj [(''success'', JBool True), (''modifiedCount'', JNum n)])"
      using patch_submitted_marks [OF b h t f] unfolding hd store_after_def response_def
      by blast
    have "\<exists>k d'. k < length (submittedAssignments s) \<and> submittedAssignments s ! k = d \<and>
         store_after (handle e req s) =
           s\<lparr>submittedAssignments := (submittedAssignments s)[k := d']\<rparr> \<and>
         get_field d' ''status'' = JStr ''completed'' \<and>
         get_field d' ''markedAt'' = JDate (now e) \<and>
         get_field d' ''obtainedMarks'' = nullify (opt_member (body req) ''obtainedMarks'') \<and>
         get_field d' ''feedback'' = nullify (opt_member (body req) ''feedback'') \<and>
         (\<forall>key. key \<notin> {''obtainedMarks'', ''feedback'', ''status'', ''markedAt''} \<longrightarrow>
            get_field d' key = get_field d key)"
      using k st
      by (intro exI [of _ k] exI [of _ "apply_set ?fs d"]) (simp add: marking_set_all)
    from this rs show "(\<exists>k d'. k < length (submittedAssignments s) \<and> submittedAssignments s ! k = d \<and>
         store_after (handle e req s) =
           s\<lparr>submittedAssignments := (submittedAssignments s)[k := d']\<rparr> \<and>
         get_field d' ''status'' = JStr ''completed'' \<and>
         get_field d' ''markedAt'' = JDate (now e) \<and>
         get_field d' ''obtainedMarks'' = nullify (opt_member (body req) ''obtainedMarks'') \<and>
         get_field d' ''feedback'' = nullify (opt_member (body req) ''feedback'') \<and>
         (\<forall>key. key \<notin> {''obtainedMarks'', ''feedback'', ''status'', ''markedAt''} \<longrightarrow>
            get_field d' key = get_field d key)) \<and>
      (\<exists>n. response (handle e req s) =
         Sent 200 (JObj [(''success'', JBool True), (''modifiedCount'', JNum n)]))"
      by (rule conjI)
  qed
  from submission_conditional [of e req s] post patch show ?thesis
    by (intro conjI) (elim conjE, assumption)+
qed

theorem submission_status_invariant_witness:
  "endpoint_of ((signed POST [''submitted-assignments''])
      \<lparr>body := JObj [(''status'', JStr ''graded''), (''userEmail'', JStr ''bob@example.com'')]\<rparr>) =
     Some PostSubmitted \<and>
   verified sample_env ((signed POST [''submitted-assignments''])
      \<lparr>body := JObj [(''status'', JStr ''graded''), (''userEmail'', JStr ''bob@example.com'')]\<rparr>) \<and>
   store_after (handle sample_env ((signed POST [''submitted-assignments''])
      \<lparr>body := JObj [(''status'', JStr ''graded''), (''userEmail'', JStr ''bob@example.com'')]\<rparr>)
      sample_store) =
     sample_store\<lparr>submittedAssignments := submittedAssignments sample_store @
       [[(''status'', JStr ''pending''), (''userEmail'', JStr ''bob@example.com''),
         (''submittedAt'', JDate 1700000000000), (''_id'', JOid ''cccccccccccccccccccccccc'')]]\<rparr> \<and>
   list_all (\<lambda>d. get_field d ''status'' = JStr ''pending'' \<or> get_field d ''status'' = JStr ''completed'')
     (submittedAssignments sample_store) \<and>
   list_all (\<lambda>d. get_field d ''status'' = JStr ''pending'' \<or> get_field d ''status'' = JStr ''completed'')
     (submittedAssignments (store_after (handle sample_env ((signed POST [''submitted-assignments''])
        \<lparr>body := JObj [(''status'', JStr ''graded''), (''userEmail'', JStr ''bob@example.com'')]\<rparr>)
        sample_store))) \<and>
   route_of (verb ((signed PATCH [''submitted-assignments'', ''bbbbbbbbbbbbbbbbbbbbbbbb''])
                     \<lparr>body := JObj [(''obtainedMarks'', JNum 40)]\<rparr>))
            (path ((signed PATCH [''submitted-assignments'', ''bbbbbbbbbbbbbbbbbbbbbbbb''])
                     \<lparr>body := JObj [(''obtainedMarks'', JNum 40)]\<rparr>)) =
     Some (PatchSubmitted, ''bbbbbbbbbbbbbbbbbbbbbbbb'') \<and>
   (\<exists>k d'. k < length (submittedAssignments sample_store) \<and>
      submittedAssignments sample_store ! k = essay_submission \<and>
      store_after (handle sample_env
          ((signed PATCH [''submitted-assignments'', ''bbbbbbbbbbbbbbbbbbbbbbbb''])
             \<lparr>body := JObj [(''obtainedMarks'', JNum 40)]\<rparr>) sample_store) =
        sample_store\<lparr>submittedAssignments := (submittedAssignments sample_store)[k := d']\<rparr> \<and>
      get_field d' ''status'' = JStr ''completed'' \<and>
      get_field d' ''markedAt'' = JDate (now sample_env))"
proof -
  let ?post = "(signed POST [''submitted-assignments''])
      \<lparr>body := JObj [(''status'', JStr ''graded''), (''userEmail'', JStr ''bob@example.com'')]\<rparr>"
  let ?patch = "(signed PATCH [''submitted-assignments'', ''bbbbbbbbbbbbbbbbbbbbbbbb''])
      \<lparr>body := JObj [(''obtainedMarks'', JNum 40)]\<rparr>"
  let ?d = "[(''status'', JStr ''pending''), (''userEmail'', JStr ''bob@example.com''),
         (''submittedAt'', JDate 1700000000000), (''_id'', JOid ''cccccccccccccccccccccccc'')]"
  note thm1 = submission_status_invariant [of sample_env ?post sample_store]
  note thm2 = submission_status_invariant [of sample_env ?patch sample_store]
  have ep: "endpoint_of ?post = Some PostSubmitted"
    by (simp add: endpoint_of_def route_of.simps signed_def bare_def)
  have v: "verified sample_env ?post"
    by (simp add: verified_def bearer_ok_def token_of_def startsWith_def index_opt_def
          sample_env_def signed_def bare_def)
  have d: "?d = bson (if get_field (submission_doc sample_env (body ?post)) ''_id'' = JUndef \<or>
                     get_field (submission_doc sample_env (body ?post)) ''_id'' = JNull
                  then set_field ''_id'' (JOid (createPk sample_env))
                         (submission_doc sample_env (body ?post))
                  else submission_doc sample_env (body ?post))"
    by (simp add: submission_doc_def get_field_def bson_def nullify_def sample_env_def)
  have t: "db_throw sample_env
             (InsertOne SubmittedAssignments (JObj (submission_doc sample_env (body ?post)))) = None"
    by (simp add: sample_env_def)
  have n: "get_field ?d ''_id'' \<notin>
             set (map (\<lambda>x. get_field x ''_id'') (submittedAssignments sample_store))"
    by (simp add: sample_store_def essay_submission_def get_field_def)
  have p1: "endpoint_of ?post = Some PostSubmitted \<and> verified sample_env ?post \<and>
        ?d = bson (if get_field (submission_doc sample_env (body ?post)) ''_id'' = JUndef \<or>
                     get_field (submission_doc sample_env (body ?post)) ''_id'' = JNull
                  then set_field ''_id'' (JOid (createPk sample_env))
                         (submission_doc sample_env (body ?post))
                  else submission_doc sample_env (body ?post)) \<and>
        db_throw sample_env
          (InsertOne SubmittedAssignments (JObj (submission_doc sample_env (body ?post)))) = None \<and>
        get_field ?d ''_id'' \<notin>
          set (map (\<lambda>x. get_field x ''_id'') (submittedAssignments sample_store))"
    using ep v d t n by (intro conjI)
  have st: "store_after (handle sample_env ?post sample_store) =
              sample_store\<lparr>submittedAssignments := submittedAssignments sample_store @ [?d]\<rparr>"
    using thm1 [THEN conjunct2, THEN conjunct2, THEN conjunct2, THEN conjunct2, THEN conjunct1,
            rule_format, OF p1]
    by (elim conjE)
  have a: "\<forall>d \<in> set (submittedAssignments sample_store).
       get_field d ''status'' = JStr ''pending'' \<or> get_field d ''status'' = JStr ''completed''"
    by (simp add: sample_store_def essay_submission_def get_field_def)
  have a': "\<forall>d \<in> set (submittedAssignments (store_after (handle sample_env ?post sample_store))).
       get_field d ''status'' = JStr ''pending'' \<or> get_field d ''status'' = JStr ''completed''"
    using thm1 [THEN conjunct2, THEN conjunct1] a by blast
  have r: "route_of (verb ?patch) (path ?patch) = Some (PatchSubmitted, ''bbbbbbbbbbbbbbbbbbbbbbbb'')"
    by (simp add: route_of.simps signed_def bare_def)
  have v2: "verified sample_env ?patch"
    by (simp add: verified_def bearer_ok_def token_of_def startsWith_def index_opt_def
          sample_env_def signed_def bare_def)
  have p2: "route_of (verb ?patch) (path ?patch) = Some (PatchSubmitted, ''bbbbbbbbbbbbbbbbbbbbbbbb'') \<and>
        verified sample_env ?patch \<and> body ?patch \<noteq> JUndef \<and> body ?patch \<noteq> JNull \<and>
        objectId sample_env ''bbbbbbbbbbbbbbbbbbbbbbbb'' = Inr ''bbbbbbbbbbbbbbbbbbbbbbbb'' \<and>
        db_throw sample_env (UpdateOne SubmittedAssignments [(''_id'', JOid ''bbbbbbbbbbbbbbbbbbbbbbbb'')]
          (marking_fields sample_env (opt_member (body ?patch) ''obtainedMarks'')
             (opt_member (body ?patch) ''feedback''))) = None \<and>
        List.find (\<lambda>d. get_field d ''_id'' = JOid ''bbbbbbbbbbbbbbbbbbbbbbbb'')
          (submittedAssignments sample_store) = Some essay_submission"
    using r v2
    by (intro conjI) (simp_all add: sample_env_def hex24_def sample_store_def essay_submission_def
          get_field_def)
  obtain k d' where k: "k < length (submittedAssignments sample_store)"
    and kd: "submittedAssignments sample_store ! k = essay_submission"
    and st2: "store_after (handle sample_env ?patch sample_store) =
               sample_store\<lparr>submittedAssignments := (submittedAssignments sample_store)[k := d']\<rparr>"
    and s1: "get_field d' ''status'' = JStr ''completed''"
    and s2: "get_field d' ''markedAt'' = JDate (now sample_env)"
    using thm2 [THEN conjunct2, THEN conjunct2, THEN conjunct2, THEN conjunct2, THEN conjunct2,
            rule_format, OF p2]
    by (elim exE conjE)
  have ex: "\<exists>k d'. k < length (submittedAssignments sample_store) \<and>
      submittedAssignments sample_store ! k = essay_submission \<and>
      store_after (handle sample_env ?patch sample_store) =
        sample_store\<lparr>submittedAssignments := (submittedAssignments sample_store)[k := d']\<rparr> \<and>
      get_field d' ''status'' = JStr ''completed'' \<and>
      get_field d' ''markedAt'' = JDate (now sample_env)"
    using k kd st2 s1 s2 by (intro exI [of _ k] exI [of _ d'] conjI)
  from ep v st a a' r ex show ?thesis
    unfolding list_all_iff by (intro conjI)
qed

section \<open>Where errors of the store are caught\<close>

text \<open>
  An error thrown by a driver call escapes only from \<^verbatim>\<open>GET /reviews\<close> and
  \<^verbatim>\<open>GET /leaderboard\<close>; on every other route, when the last driver call issued
  rejects, the route answers 500 with the error's message.
\<close>

lemma member_error: "member b k \<noteq> Inl (MongoError m)"
  by (cases b) auto

lemma escapes_only_unguarded:
  assumes "route_of (verb req) (path req) = Some (ep, i)"
      and "response (handle e req s) = Escaped (MongoError m)"
  shows "ep = GetReviews \<or> ep = GetLeaderboard"
proof -
  have h: "fst (handler_of ep i e req (s, [])) = Escaped (MongoError m)"
    using assms by (simp add: handle_at response_def)
  then show ?thesis
    by (cases ep)
       (auto simp: route_defs Let_def fail500_def ok_def not_found_def member_error
          split: sum.splits prod.splits option.splits if_splits)
qed

lemma caught_store_error:
  assumes "route_of (verb req) (path req) = Some (ep, i)"
      and "ep \<noteq> GetReviews" and "ep \<noteq> GetLeaderboard"
      and "calls (handle e req s) \<noteq> []"
      and "db_throw e (last (calls (handle e req s))) = Some m"
      and "body req \<noteq> JUndef" and "body req \<noteq> JNull"
  shows "response (handle e req s) =
           Sent 500 (JObj [(''success'', JBool False), (''message'', JStr m)])"
proof -
  have h: "handle e req s = handler_of ep i e req (s, [])"
    using assms(1) by (simp add: handle_at)
  show ?thesis
    using assms(2-) unfolding h response_def calls_def
    by (cases ep)
       (auto simp: route_defs Let_def fail500_def insertOne_def find_all_def findOne_def
          updateOne_def deleteOne_def logged_def
          split: sum.splits prod.splits option.splits if_splits)
qed

section \<open>How many driver calls a request issues\<close>

lemma member_Inl: "member b k = Inl err \<Longrightarrow> (b = JUndef \<or> b = JNull) \<and> opt_member b k' = JUndef"
  by (cases b) auto

lemma member_Inr: "member b k = Inr v \<Longrightarrow> b \<noteq> JUndef \<and> b \<noteq> JNull \<and> v = opt_member b k"
  by (cases b) auto

lemma verifyToken_count:
  "length (snd (snd (verifyToken h e req (s, [])))) =
     (if verified e req then length (snd (snd (h e req (s, [])))) else 0)"
  by (simp add: verifyToken_def verified_def)

lemma post_reviews_count:
  "length (snd (snd (post_reviews e req (s, [])))) =
     (if truthy (opt_member (body req) ''name'') \<and> truthy (opt_member (body req) ''email'') \<and>
         truthy (opt_member (body req) ''text'') then 1 else 0)"
  by (auto simp: post_reviews_def Let_def split: sum.splits prod.splits
        dest!: log_dest member_Inl [where k' = "''name''"] member_Inr)

lemma get_reviews_count: "length (snd (snd (get_reviews e req (s, [])))) = 1"
  by (auto simp: get_reviews_def Let_def split: sum.splits prod.splits dest!: log_dest)

lemma post_assignments_count: "length (snd (snd (post_assignments e req (s, [])))) = 1"
  by (auto simp: post_assignments_def split: sum.splits prod.splits dest!: log_dest)

lemma get_assignments_count: "length (snd (snd (get_assignments e req (s, [])))) = 1"
  by (auto simp: get_assignments_def split: sum.splits prod.splits dest!: log_dest)

lemma get_assignment_count:
  "length (snd (snd (get_assignment i e req (s, [])))) =
     (case objectId e i of Inl m \<Rightarrow> 0 | Inr h \<Rightarrow> 1)"
  by (auto simp: get_assignment_def split: sum.splits prod.splits option.splits dest!: log_dest)

lemma get_leaderboard_count: "length (snd (snd (get_leaderboard e req (s, [])))) = 1"
  by (auto simp: get_leaderboard_def Let_def split: sum.splits prod.splits dest!: log_dest)

lemma put_fields_Inl: "(\<exists>err. put_fields b = Inl err) \<longleftrightarrow> (b = JUndef \<or> b = JNull)"
  by (cases b) (auto simp: put_fields_def)

lemma put_assignment_count:
  "length (snd (snd (put_assignment i e req (s, [])))) =
     (if body req \<noteq> JUndef \<and> body req \<noteq> JNull
      then (case objectId e i of Inl m \<Rightarrow> 0 | Inr h \<Rightarrow> 1) else 0)"
  using put_fields_Inl [of "body req"]
  by (auto simp: put_assignment_def split: sum.splits prod.splits dest!: log_dest)

lemma delete_assignment_count:
  "length (snd (snd (delete_assignment i e req (s, [])))) =
     (case objectId e i of
        Inl m \<Rightarrow> 0
      | Inr h \<Rightarrow>
          if db_throw e (FindOne Assignments [(''_id'', JOid h)]) = None \<and>
             (case List.find (\<lambda>d. get_field d ''_id'' = JOid h) (assignments s) of
                None \<Rightarrow> False
              | Some d \<Rightarrow> strict_eq (opt_member (get_field d ''creator'') ''email'')
                           (get_field (query req) ''email''))
          then 2 else 1)"
  by (auto simp: delete_assignment_def findOne_def logged_def Let_def matches_id_fun
        split: sum.splits prod.splits option.splits dest!: deleteOne_log)

lemma get_submitted_count:
  "length (snd (snd (get_submitted e req (s, [])))) =
     (if truthy (get_field (query req) ''email'') then 1 else 0)"
  by (auto simp: get_submitted_def Let_def split: sum.splits prod.splits dest!: log_dest)

lemma post_submitted_count: "length (snd (snd (post_submitted e req (s, [])))) = 1"
  by (auto simp: post_submitted_def split: sum.splits prod.splits dest!: log_dest)

lemma patch_submitted_count:
  "length (snd (snd (patch_submitted i e req (s, [])))) =
     (if body req \<noteq> JUndef \<and> body req \<noteq> JNull
      then (case objectId e i of Inl m \<Rightarrow> 0 | Inr h \<Rightarrow> 1) else 0)"
  by (auto simp: patch_submitted_def Let_def split: sum.splits prod.splits
        dest!: log_dest member_Inl [where k' = "''obtainedMarks''"] member_Inr)

lemma get_pending_submitted_count:
  "length (snd (snd (get_pending_submitted e req (s, [])))) =
     (if truthy (get_field (query req) ''email'') then 1 else 0)"
  by (auto simp: get_pending_submitted_def Let_def split: sum.splits prod.splits dest!: log_dest)

lemma delete_calls_shape:
  "snd (snd (handler_of DeleteAssignment i e req (s, []))) = [] \<or>
   (\<exists>h. objectId e i = Inr h \<and>
     (snd (snd (handler_of DeleteAssignment i e req (s, []))) =
        [FindOne Assignments [(''_id'', JOid h)]] \<or>
      snd (snd (handler_of DeleteAssignment i e req (s, []))) =
        [FindOne Assignments [(''_id'', JOid h)], DeleteOne Assignments [(''_id'', JOid h)]]))"
  using delete_assignment_calls [of i e req s]
  by (auto simp: verifyToken_def)

lemma handler_count:
  "length (snd (snd (handler_of ep i e req (s, [])))) =
     (case ep of
        Root \<Rightarrow> 0
      | PostReviews \<Rightarrow>
          if truthy (opt_member (body req) ''name'') \<and> truthy (opt_member (body req) ''email'') \<and>
             truthy (opt_member (body req) ''text'') then 1 else 0
      | GetReviews \<Rightarrow> 1
      | PostAssignments \<Rightarrow> if verified e req then 1 else 0
      | GetAssignments \<Rightarrow> 1
      | GetAssignment \<Rightarrow> (case objectId e i of Inl m \<Rightarrow> 0 | Inr h \<Rightarrow> 1)
      | GetLeaderboard \<Rightarrow> 1
      | PutAssignment \<Rightarrow>
          if verified e req \<and> body req \<noteq> JUndef \<and> body req \<noteq> JNull
          then (case objectId e i of Inl m \<Rightarrow> 0 | Inr h \<Rightarrow> 1) else 0
      | DeleteAssignment \<Rightarrow>
          if verified e req
          then (case objectId e i of
                  Inl m \<Rightarrow> 0
                | Inr h \<Rightarrow>
                    if db_throw e (FindOne Assignments [(''_id'', JOid h)]) = None \<and>
                       (case List.find (\<lambda>d. get_field d ''_id'' = JOid h) (assignments s) of
                          None \<Rightarrow> False
                        | Some d \<Rightarrow> strict_eq (opt_member (get_field d ''creator'') ''email'')
                                     (get_field (query req) ''email''))
                    then 2 else 1)
          else 0
      | GetSubmitted \<Rightarrow>
          if verified e req \<and> truthy (get_field (query req) ''email'') then 1 else 0
      | PostSubmitted \<Rightarrow> if verified e req then 1 else 0
      | PatchSubmitted \<Rightarrow>
          if verified e req \<and> body req \<noteq> JUndef \<and> body req \<noteq> JNull
          then (case objectId e i of Inl m \<Rightarrow> 0 | Inr h \<Rightarrow> 1) else 0
      | GetPendingSubmitted \<Rightarrow>
          if verified e req \<and> truthy (get_field (query req) ''email'') then 1 else 0)"
proof (cases ep)
  case Root
  then show ?thesis by (simp add: root_def)
next
  case PostReviews
  then show ?thesis using post_reviews_count [of e req s] by simp
next
  case GetReviews
  then show ?thesis using get_reviews_count [of e req s] by simp
next
  case PostAssignments
  then show ?thesis
    using post_assignments_count [of e req s] by (simp add: verifyToken_count)
next
  case GetAssignments
  then show ?thesis using get_assignments_count [of e req s] by simp
next
  case GetAssignment
  then show ?thesis using get_assignment_count [of i e req s] by simp
next
  case GetLeaderboard
  then show ?thesis using get_leaderboard_count [of e req s] by simp
next
  case PutAssignment
  then show ?thesis
    using put_assignment_count [of i e req s] by (simp add: verifyToken_count)
next
  case DeleteAssignment
  then show ?thesis
    using delete_assignment_count [of i e req s] by (simp add: verifyToken_count)
next
  case GetSubmitted
  then show ?thesis
    using get_submitted_count [of e req s] by (simp add: verifyToken_count)
next
  case PostSubmitted
  then show ?thesis
    using post_submitted_count [of e req s] by (simp add: verifyToken_count)
next
  case PatchSubmitted
  then show ?thesis
    using patch_submitted_count [of i e req s] by (simp add: verifyToken_count)
next
  case GetPendingSubmitted
  then show ?thesis
    using get_pending_submitted_count [of e req s] by (simp add: verifyToken_count)
qed

text \<open>
  C1 (as amended). Handling one request issues exactly one database call once the
  request has passed the checks its route makes before the call (\<^verbatim>\<open>verifyToken\<close>
  on the guarded routes, the three required fields of \<^verbatim>\<open>POST /reviews\<close>, the
  \<^verbatim>\<open>email\<close> parameter of the two listings of submissions, a well-formed
  \<^verbatim>\<open>:id\<close>, a body to read on \<^verbatim>\<open>PUT\<close> and \<^verbatim>\<open>PATCH\<close>), and none when it is
  answered before; \<^verbatim>\<open>GET /reviews\<close>, \<^verbatim>\<open>GET /assignments\<close> and
  \<^verbatim>\<open>GET /leaderboard\<close> make no check and always issue exactly one, \<^verbatim>\<open>GET /\<close>
  none. The one exception is \<^verbatim>\<open>DELETE /assignments/:id\<close>: past its checks it issues
  exactly two calls, a \<^verbatim>\<open>findOne\<close> and a \<^verbatim>\<open>deleteOne\<close> with the same filter,
  when the \<^verbatim>\<open>findOne\<close> returns a document whose creator's email equals the
  \<^verbatim>\<open>email\<close> parameter, and exactly one, the \<^verbatim>\<open>findOne\<close>, otherwise.
\<close>

theorem calls_per_request:
  "(route_of (verb req) (path req) = None \<longrightarrow> calls (handle e req s) = []) \<and>
   (\<forall>ep i. route_of (verb req) (path req) = Some (ep, i) \<longrightarrow>
      length (calls (handle e req s)) =
        (case ep of
           Root \<Rightarrow> 0
         | PostReviews \<Rightarrow>
             if truthy (opt_member (body req) ''name'') \<and>
                truthy (opt_member (body req) ''email'') \<and>
                truthy (opt_member (body req) ''text'') then 1 else 0
         | GetReviews \<Rightarrow> 1
         | PostAssignments \<Rightarrow> if verified e req then 1 else 0
         | GetAssignments \<Rightarrow> 1
         | GetAssignment \<Rightarrow> (case objectId e i of Inl m \<Rightarrow> 0 | Inr h \<Rightarrow> 1)
         | GetLeaderboard \<Rightarrow> 1
         | PutAssignment \<Rightarrow>
             if verified e req \<and> body req \<noteq> JUndef \<and> body req \<noteq> JNull
             then (case objectId e i of Inl m \<Rightarrow> 0 | Inr h \<Rightarrow> 1) else 0
         | DeleteAssignment \<Rightarrow>
             if verified e req
             then (case objectId e i of
                     Inl m \<Rightarrow> 0
                   | Inr h \<Rightarrow>
                       if db_throw e (FindOne Assignments [(''_id'', JOid h)]) = None \<and>
                          (case List.find (\<lambda>d. get_field d ''_id'' = JOid h) (assignments s) of
                             None \<Rightarrow> False
                           | Some d \<Rightarrow> strict_eq (opt_member (get_field d ''creator'') ''email'')
                                        (get_field (query req) ''email''))
                       then 2 else 1)
             else 0
         | GetSubmitted \<Rightarrow>
             if verified e req \<and> truthy (get_field (query req) ''email'') then 1 else 0
         | PostSubmitted \<Rightarrow> if verified e req then 1 else 0
         | PatchSubmitted \<Rightarrow>
             if verified e req \<and> body req \<noteq> JUndef \<and> body req \<noteq> JNull
             then (case objectId e i of Inl m \<Rightarrow> 0 | Inr h \<Rightarrow> 1) else 0
         | GetPendingSubmitted \<Rightarrow>
             if verified e req \<and> truthy (get_field (query req) ''email'') then 1 else 0)) \<and>
   (\<forall>i. route_of (verb req) (path req) = Some (DeleteAssignment, i) \<longrightarrow>
      calls (handle e req s) = [] \<or>
      (\<exists>h. objectId e i = Inr h \<and>
         (calls (handle e req s) = [FindOne Assignments [(''_id'', JOid h)]] \<or>
          calls (handle e req s) =
            [FindOne Assignments [(''_id'', JOid h)], DeleteOne Assignments [(''_id'', JOid h)]])))"
proof (intro conjI allI impI)
  assume "route_of (verb req) (path req) = None"
  then show "calls (handle e req s) = []" by (rule handle_unrouted)
next
  fix ep i
  assume r: "route_of (verb req) (path req) = Some (ep, i)"
  show "length (calls (handle e req s)) =
        (case ep of
           Root \<Rightarrow> 0
         | PostReviews \<Rightarrow>
             if truthy (opt_member (body req) ''name'') \<and>
                truthy (opt_member (body req) ''email'') \<and>
                truthy (opt_member (body req) ''text'') then 1 else 0
         | GetReviews \<Rightarrow> 1
         | PostAssignments \<Rightarrow> if verified e req then 1 else 0
         | GetAssignments \<Rightarrow> 1
         | GetAssignment \<Rightarrow> (case objectId e i of Inl m \<Rightarrow> 0 | Inr h \<Rightarrow> 1)
         | GetLeaderboard \<Rightarrow> 1
         | PutAssignment \<Rightarrow>
             if verified e req \<and> body req \<noteq> JUndef \<and> body req \<noteq> JNull
             then (case objectId e i of Inl m \<Rightarrow> 0 | Inr h \<Rightarrow> 1) else 0
         | DeleteAssignment \<Rightarrow>
             if verified e req
             then (case objectId e i of
                     Inl m \<Rightarrow> 0
                   | Inr h \<Rightarrow>
                       if db_throw e (FindOne Assignments [(''_id'', JOid h)]) = None \<and>
                          (case List.find (\<lambda>d. get_field d ''_id'' = JOid h) (assignments s) of
                             None \<Rightarrow> False
                           | Some d \<Rightarrow> strict_eq (opt_member (get_field d ''creator'') ''email'')
                                        (get_field (query req) ''email''))
                       then 2 else 1)
             else 0
         | GetSubmitted \<Rightarrow>
             if verified e req \<and> truthy (get_field (query req) ''email'') then 1 else 0
         | PostSubmitted \<Rightarrow> if verified e req then 1 else 0
         | PatchSubmitted \<Rightarrow>
             if verified e req \<and> body req \<noteq> JUndef \<and> body req \<noteq> JNull
             then (case objectId e i of Inl m \<Rightarrow> 0 | Inr h \<Rightarrow> 1) else 0
         | GetPendingSubmitted \<Rightarrow>
             if verified e req \<and> truthy (get_field (query req) ''email'') then 1 else 0)"
    unfolding handle_routed [OF r] by (rule handler_count)
next
  fix i
  assume r: "route_of (verb req) (path req) = Some (DeleteAssignment, i)"
  show "calls (handle e req s) = [] \<or>
      (\<exists>h. objectId e i = Inr h \<and>
         (calls (handle e req s) = [FindOne Assignments [(''_id'', JOid h)]] \<or>
          calls (handle e req s) =
            [FindOne Assignments [(''_id'', JOid h)], DeleteOne Assignments [(''_id'', JOid h)]]))"
    unfolding handle_routed [OF r] by (rule delete_calls_shape)
qed

theorem calls_per_request_witness:
  "route_of (verb ((signed DELETE [''assignments'', ''aaaaaaaaaaaaaaaaaaaaaaaa''])
                     \<lparr>query := [(''email'', JStr ''ann@example.com'')]\<rparr>))
            (path ((signed DELETE [''assignments'', ''aaaaaaaaaaaaaaaaaaaaaaaa''])
                     \<lparr>query := [(''email'', JStr ''ann@example.com'')]\<rparr>)) =
     Some (DeleteAssignment, ''aaaaaaaaaaaaaaaaaaaaaaaa'') \<and>
   length (calls (handle sample_env
            ((signed DELETE [''assignments'', ''aaaaaaaaaaaaaaaaaaaaaaaa''])
               \<lparr>query := [(''email'', JStr ''ann@example.com'')]\<rparr>) sample_store)) = 2 \<and>
   route_of (verb (bare GET [''reviews''])) (path (bare GET [''reviews''])) =
     Some (GetReviews, []) \<and>
   length (calls (handle sample_env (bare GET [''reviews'']) sample_store)) = 1 \<and>
   route_of (verb (bare POST [''assignments''])) (path (bare POST [''assignments''])) =
     Some (PostAssignments, []) \<and>
   length (calls (handle sample_env (bare POST [''assignments'']) sample_store)) = 0"
proof -
  let ?del = "(signed DELETE [''assignments'', ''aaaaaaaaaaaaaaaaaaaaaaaa''])
                \<lparr>query := [(''email'', JStr ''ann@example.com'')]\<rparr>"
  have a: "route_of (verb ?del) (path ?del) = Some (DeleteAssignment, ''aaaaaaaaaaaaaaaaaaaaaaaa'')"
    by (simp add: route_of.simps signed_def bare_def)
  have b: "route_of (verb (bare GET [''reviews''])) (path (bare GET [''reviews''])) =
             Some (GetReviews, [])"
    by (simp add: route_of.simps bare_def)
  have c: "route_of (verb (bare POST [''assignments''])) (path (bare POST [''assignments''])) =
             Some (PostAssignments, [])"
    by (simp add: route_of.simps bare_def)
  have d: "length (calls (handle sample_env ?del sample_store)) = 2"
    using calls_per_request [of ?del sample_env sample_store, THEN conjunct2, THEN conjunct1,
            rule_format, OF a]
    by (simp add: verified_def bearer_ok_def token_of_def startsWith_def index_opt_def
          get_field_def sample_defs)
  have f: "length (calls (handle sample_env (bare GET [''reviews'']) sample_store)) = 1"
    using calls_per_request [of "bare GET [''reviews'']" sample_env sample_store, THEN conjunct2,
            THEN conjunct1, rule_format, OF b]
    by simp
  have g: "length (calls (handle sample_env (bare POST [''assignments'']) sample_store)) = 0"
    using calls_per_request [of "bare POST [''assignments'']" sample_env sample_store,
            THEN conjunct2, THEN conjunct1, rule_format, OF c]
    by (simp add: verified_def bearer_ok_def bare_def)
  from a b c d f g show ?thesis by (intro conjI)
qed

text \<open>
  C1 as stated fails: an authorised \<^verbatim>\<open>DELETE /assignments/:id\<close> of an existing
  assignment by its creator issues two calls, the \<^verbatim>\<open>findOne\<close> of the ownership
  check and the \<^verbatim>\<open>deleteOne\<close>.
\<close>

theorem delete_issues_two_calls:
  "calls (handle sample_env
            ((signed DELETE [''assignments'', ''aaaaaaaaaaaaaaaaaaaaaaaa''])
               \<lparr>query := [(''email'', JStr ''ann@example.com'')]\<rparr>) sample_store) =
     [FindOne Assignments [(''_id'', JOid ''aaaaaaaaaaaaaaaaaaaaaaaa'')],
      DeleteOne Assignments [(''_id'', JOid ''aaaaaaaaaaaaaaaaaaaaaaaa'')]]"
  by (simp add: handler_defs sample_defs)

end
